theory Spec2Isabelle
  imports Complex_Main "HOL-Library.AList"
begin

section \<open>Data model (domain/models.py, adapters/db.py)\<close>

text \<open>
  The payment service is written in Python. Values that arrive as decoded JSON
  (\<^verbatim>\<open>Dict[str, Any]\<close>) are modelled by the datatype \<open>json\<close>; \<open>JNull\<close> is
  Python's \<^verbatim>\<open>None\<close>. A Python dict is an association list in insertion order,
  read with \<open>map_of\<close>. Amounts are Python floats in the source; the verified
  paths compare them with zero, copy them and store them in a
  \<^verbatim>\<open>DECIMAL(15, 2)\<close> column, and they are modelled as rationals (the decimal
  value the float prints as). A \<^verbatim>\<open>datetime\<close> is a point on an integer time
  line. A string is a list of characters, each counted once by the length limit
  of a column, and holds no NUL character.
\<close>

datatype json =
    JNull
  | JBool bool
  | JNum rat
  | JStr string
  | JArr "json list"
  | JObj "(string \<times> json) list"

type_synonym pydict = "(string \<times> json) list"
type_synonym money = rat
type_synonym timestamp = int

datatype PaymentMethod = CREDIT_CARD | BANK_TRANSFER | E_WALLET | QRIS | RETAIL

datatype PaymentStatus =
  PENDING | PROCESSING | SUCCESS | FAILED | CANCELED | REFUNDED | EXPIRED

text \<open>\<^verbatim>\<open>PaymentStatus.value\<close>: the string of each enum member.\<close>

fun status_value :: "PaymentStatus \<Rightarrow> string" where
  "status_value PENDING = ''pending''"
| "status_value PROCESSING = ''processing''"
| "status_value SUCCESS = ''success''"
| "status_value FAILED = ''failed''"
| "status_value CANCELED = ''canceled''"
| "status_value REFUNDED = ''refunded''"
| "status_value EXPIRED = ''expired''"

text \<open>\<^verbatim>\<open>d.get(k)\<close> and \<^verbatim>\<open>d.get(k, default)\<close> on a dict.\<close>

definition dict_get_default :: "pydict \<Rightarrow> string \<Rightarrow> json \<Rightarrow> json" where
  "dict_get_default d k dflt = (case map_of d k of None \<Rightarrow> dflt | Some v \<Rightarrow> v)"

definition dict_get :: "pydict \<Rightarrow> string \<Rightarrow> json" where
  "dict_get d k = dict_get_default d k JNull"

text \<open>\<^verbatim>\<open>d[k] = v\<close>: an existing key keeps its place, a new key goes last.\<close>

definition dict_set :: "pydict \<Rightarrow> string \<Rightarrow> json \<Rightarrow> pydict" where
  "dict_set d k v = AList.update k v d"

text \<open>\<^verbatim>\<open>d.update(e)\<close> for a dict \<^verbatim>\<open>e\<close>.\<close>

definition dict_update :: "pydict \<Rightarrow> pydict \<Rightarrow> pydict" where
  "dict_update d e = fold (\<lambda>kv acc. dict_set acc (fst kv) (snd kv)) e d"

text \<open>Python truthiness of a decoded JSON value (\<^verbatim>\<open>if record.token:\<close>).\<close>

fun truthy :: "json \<Rightarrow> bool" where
  "truthy JNull = False"
| "truthy (JBool b) = b"
| "truthy (JNum n) = (n \<noteq> 0)"
| "truthy (JStr s) = (s \<noteq> [])"
| "truthy (JArr xs) = (xs \<noteq> [])"
| "truthy (JObj kvs) = (kvs \<noteq> [])"

text \<open>
  \<^verbatim>\<open>str.lower()\<close> on the ASCII letters. The keys of the status tables are ASCII
  and hold no \<^verbatim>\<open>k\<close>, so no non-ASCII spelling lowers to one of them.
\<close>

definition lower_char :: "char \<Rightarrow> char" where
  "lower_char c =
     (case map_of (zip ''ABCDEFGHIJKLMNOPQRSTUVWXYZ'' ''abcdefghijklmnopqrstuvwxyz'') c of
        None \<Rightarrow> c
      | Some d \<Rightarrow> d)"

definition lower :: "string \<Rightarrow> string" where
  "lower s = map lower_char s"

section \<open>Exceptions\<close>

text \<open>
  An exception is a value. The messages of the source are f-strings; a message
  is kept as its template with \<^verbatim>\<open>{}\<close> for each interpolated value, and the
  interpolated values beside it, so that a theorem can say which status a message
  names without fixing how the interpreter prints an enum member.
  \<open>PyError\<close> stands for an exception raised by the interpreter or a library
  (\<^verbatim>\<open>AttributeError\<close>, \<^verbatim>\<open>TypeError\<close>, a \<^verbatim>\<open>requests\<close> exception, a pydantic
  validation error), named by its class.
\<close>

datatype exn =
    PyError string
  | ValueError message
  | HTTPException nat message
and message = Fmt string "arg list"
and arg =
    AStr string
  | AStatus PaymentStatus
  | ACode nat
  | ABody "json option"
  | AExn exn

section \<open>The gateway, the clock and the interpreter as an environment\<close>

text \<open>
  The adapter talks to Midtrans over HTTP. A request is identified by its method
  and URL; the answer is chosen by the environment. Within one operation of the
  service each URL is requested at most once, so a function from requests to
  answers covers every behaviour of the network during that operation.
  \<open>NetworkError\<close> is an exception of \<^verbatim>\<open>requests\<close> (connection failure, timeout);
  \<open>Response code body\<close> carries the HTTP status code and the decoded JSON body,
  \<open>None\<close> when \<^verbatim>\<open>response.json()\<close> raises.
\<close>

datatype gateway_request =
    PostSnap
  | GetStatus string
  | PostCancel string
  | PostRefund string

datatype http_result = NetworkError | Response nat "json option"

text \<open>
  What the code takes from outside the repository: the network, the two clocks
  (\<^verbatim>\<open>datetime.now()\<close> and \<^verbatim>\<open>datetime.utcnow()\<close>), and library functions, which
  are parameters of the model: \<^verbatim>\<open>hashlib.sha512(s.encode()).hexdigest()\<close>
  (\<open>None\<close> when it raises), \<^verbatim>\<open>str()\<close> of a value that is neither a string
  nor \<^verbatim>\<open>None\<close>, \<^verbatim>\<open>float()\<close> (\<open>None\<close> when it raises), pydantic's validation of
  a \<^verbatim>\<open>str\<close> field given a value that is not a string (\<open>None\<close> when it is
  refused), \<^verbatim>\<open>json.dumps\<close> and \<^verbatim>\<open>json.loads\<close> (\<open>None\<close> when it raises), and
  the text that the database driver makes of a value that is neither a string
  nor \<^verbatim>\<open>None\<close> when it is bound to a character column (\<open>None\<close> when the
  driver or the database refuses it).
\<close>

record env =
  gateway :: "gateway_request \<Rightarrow> http_result"
  now :: timestamp
  utcnow :: timestamp
  sha512_hexdigest :: "string \<Rightarrow> string option"
  py_str :: "json \<Rightarrow> string"
  py_float :: "json \<Rightarrow> money option"
  coerce_str :: "json \<Rightarrow> string option"
  json_dumps :: "json \<Rightarrow> string"
  json_loads :: "string \<Rightarrow> json option"
  column_text :: "json \<Rightarrow> string option"

section \<open>Status mapping (adapters/midtrans_adapter.py, adapters/webhook_handler.py)\<close>

text \<open>
  The dict literal \<^verbatim>\<open>status_mapping\<close> of \<^verbatim>\<open>MidtransAdapter.get_payment_status\<close>
  (the second definition of that name in the class, which is the one Python
  keeps) and of \<^verbatim>\<open>WebhookHandler.map_status_to_payment_status\<close>.
\<close>

definition status_mapping :: "(string \<times> PaymentStatus) list" where
  "status_mapping =
     [(''capture'', SUCCESS),
      (''settlement'', SUCCESS),
      (''pending'', PENDING),
      (''deny'', FAILED),
      (''cancel'', CANCELED),
      (''expire'', EXPIRED),
      (''refund'', REFUNDED),
      (''partial_refund'', REFUNDED)]"

text \<open>The dict literal of \<^verbatim>\<open>MidtransAdapter.handle_notification\<close>.\<close>

definition notification_status_mapping :: "(string \<times> PaymentStatus) list" where
  "notification_status_mapping =
     [(''pending'', PENDING),
      (''capture'', SUCCESS),
      (''settlement'', SUCCESS),
      (''deny'', FAILED),
      (''cancel'', CANCELED),
      (''expire'', EXPIRED),
      (''refund'', REFUNDED),
      (''partial_refund'', REFUNDED)]"

text \<open>
  \<^verbatim>\<open>status_mapping.get(key, PaymentStatus.PENDING)\<close> with a decoded JSON value
  as the key: a list or a dict is unhashable and raises \<^verbatim>\<open>TypeError\<close>; a value
  that is not a string equals no key.
\<close>

fun mapping_get :: "(string \<times> PaymentStatus) list \<Rightarrow> json \<Rightarrow> exn + PaymentStatus" where
  "mapping_get m (JStr s) = Inr (case map_of m s of None \<Rightarrow> PENDING | Some st \<Rightarrow> st)"
| "mapping_get m (JArr xs) = Inl (PyError ''TypeError'')"
| "mapping_get m (JObj kvs) = Inl (PyError ''TypeError'')"
| "mapping_get m v = Inr PENDING"

text \<open>
  The body of the \<^verbatim>\<open>if response.status_code == 200\<close> branch of
  \<^verbatim>\<open>MidtransAdapter.get_payment_status\<close>, given \<^verbatim>\<open>result = response.json()\<close>:
  \<^verbatim>\<open>result.get\<close> raises \<^verbatim>\<open>AttributeError\<close> when the body is not an object.
\<close>

definition map_status_result :: "json \<Rightarrow> exn + PaymentStatus" where
  "map_status_result result =
     (case result of
        JObj kvs \<Rightarrow>
          (let transaction_status = dict_get kvs ''transaction_status'';
               fraud_status = dict_get kvs ''fraud_status''
           in if fraud_status = JStr ''deny'' then Inr FAILED
              else mapping_get status_mapping transaction_status)
      | _ \<Rightarrow> Inl (PyError ''AttributeError''))"

text \<open>
  \<^verbatim>\<open>MidtransAdapter.get_payment_status(order_id)\<close>, from the answer of the
  gateway to \<^verbatim>\<open>GET {api_url}/{order_id}/status\<close>. The whole body is inside
  \<^verbatim>\<open>try ... except Exception: return PaymentStatus.PENDING\<close>.
\<close>

definition status_of_response :: "http_result \<Rightarrow> PaymentStatus" where
  "status_of_response r =
     (case r of
        NetworkError \<Rightarrow> PENDING
      | Response code body \<Rightarrow>
          if code = 200 then
            (case body of
               None \<Rightarrow> PENDING
             | Some result \<Rightarrow>
                 (case map_status_result result of Inl e \<Rightarrow> PENDING | Inr st \<Rightarrow> st))
          else if code = 404 then PENDING
          else PENDING)"

text \<open>
  \<^verbatim>\<open>WebhookHandler.map_status_to_payment_status(transaction_status, fraud_status)\<close>;
  \<^verbatim>\<open>transaction_status\<close> is a \<^verbatim>\<open>str\<close>, \<^verbatim>\<open>fraud_status\<close> an optional one.
\<close>

definition map_status_to_payment_status :: "string \<Rightarrow> string option \<Rightarrow> PaymentStatus" where
  "map_status_to_payment_status transaction_status fraud_status =
     (if fraud_status = Some ''deny'' then FAILED
      else (case map_of status_mapping (lower transaction_status) of
              None \<Rightarrow> PENDING
            | Some st \<Rightarrow> st))"

text \<open>
  The status computed by \<^verbatim>\<open>MidtransAdapter.handle_notification\<close> from
  \<^verbatim>\<open>transaction_status = notification_data.get("transaction_status", "")\<close>:
  \<^verbatim>\<open>.lower()\<close> raises \<^verbatim>\<open>AttributeError\<close> on a value that is not a string.
  The function never reads \<^verbatim>\<open>fraud_status\<close>.
\<close>

definition notification_status :: "json \<Rightarrow> exn + PaymentStatus" where
  "notification_status transaction_status =
     (case transaction_status of
        JStr s \<Rightarrow>
          Inr (case map_of notification_status_mapping (lower s) of
                 None \<Rightarrow> PENDING
               | Some st \<Rightarrow> st)
      | _ \<Rightarrow> Inl (PyError ''AttributeError''))"

text \<open>
  A status-query answer of the gateway with HTTP status 200 whose body is an
  object carrying the two status fields.
\<close>

definition status_response :: "json \<Rightarrow> json \<Rightarrow> http_result" where
  "status_response transaction_status fraud_status =
     Response 200 (Some (JObj [(''transaction_status'', transaction_status),
                               (''fraud_status'', fraud_status)]))"

section \<open>Records (domain/models.py, adapters/db.py)\<close>

text \<open>\<^verbatim>\<open>PaymentRequest\<close>.\<close>

record PaymentRequest =
  rq_order_id :: string
  rq_amount :: money
  rq_payment_method :: PaymentMethod
  rq_customer_details :: pydict
  rq_item_details :: "json list"
  rq_description :: "string option"
  rq_expiry_duration :: int

text \<open>\<^verbatim>\<open>PaymentResponse\<close>, the payment as the ports exchange it.\<close>

record PaymentResponse =
  p_id :: string
  p_order_id :: string
  p_transaction_id :: string
  p_amount :: money
  p_status :: PaymentStatus
  p_payment_method :: PaymentMethod
  p_payment_url :: "string option"
  p_created_at :: timestamp
  p_updated_at :: timestamp
  p_metadata :: "pydict option"

text \<open>\<^verbatim>\<open>WebhookNotification\<close>, the validated webhook payload.\<close>

record WebhookNotification =
  wh_transaction_id :: string
  wh_order_id :: string
  wh_transaction_status :: string
  wh_gross_amount :: string
  wh_payment_type :: string
  wh_fraud_status :: "string option"
  wh_signature_key :: "string option"
  wh_transaction_time :: "string option"

text \<open>\<^verbatim>\<open>PaymentNotification\<close>, the notification as the gateway adapter normalises it.\<close>

record PaymentNotification =
  nt_transaction_id :: string
  nt_order_id :: string
  nt_status :: PaymentStatus
  nt_amount :: money
  nt_payment_type :: string
  nt_processed_at :: timestamp

text \<open>
  \<^verbatim>\<open>PaymentRecord\<close>, a row of the table \<^verbatim>\<open>payments\<close>. The columns filled from
  the metadata hold whatever \<^verbatim>\<open>metadata.get\<close> returned, \<open>JNull\<close> for SQL NULL.
\<close>

record PaymentRecord =
  payment_id :: string
  order_id :: string
  status :: PaymentStatus
  amount :: money
  payment_method :: PaymentMethod
  transaction_time :: timestamp
  expiry_time :: "timestamp option"
  payment_url :: "string option"
  token :: json
  redirect_url :: json
  qr_code_url :: json
  virtual_account_number :: json
  bank_code :: json
  additional_data :: "string option"
  created_at :: timestamp
  updated_at :: timestamp

section \<open>State and effects\<close>

text \<open>
  The state of the world is the table and a trace of the effects performed so
  far: each HTTP request to the gateway, each query of the table and each commit,
  in order. The table is a list of rows; \<^verbatim>\<open>payment_id\<close> is its primary key.
  A commit fails when a value does not fit its column or when an inserted row
  repeats a primary key (see \<^verbatim>\<open>save_payment\<close> below); other failures of the
  database (a lost connection, a timeout) are outside the model.
\<close>

datatype event =
    GatewayCall gateway_request
  | SelectById string
  | SelectByOrder string
  | Commit string

record world =
  db :: "PaymentRecord list"
  trace :: "event list"

text \<open>
  A computation runs on a world and ends with a value or a raised exception;
  what it did to the world before raising stays done.
\<close>

type_synonym 'a io = "world \<Rightarrow> (exn + 'a) \<times> world"

definition ret :: "'a \<Rightarrow> 'a io" where
  "ret x w = (Inr x, w)"

definition raise :: "exn \<Rightarrow> 'a io" where
  "raise e w = (Inl e, w)"

definition bind :: "'a io \<Rightarrow> ('a \<Rightarrow> 'b io) \<Rightarrow> 'b io" where
  "bind m f w = (case m w of (Inl e, w') \<Rightarrow> (Inl e, w') | (Inr x, w') \<Rightarrow> f x w')"

text \<open>\<^verbatim>\<open>try: m except Exception as e: h(e)\<close>.\<close>

definition try_except :: "'a io \<Rightarrow> (exn \<Rightarrow> 'a io) \<Rightarrow> 'a io" where
  "try_except m h w = (case m w of (Inl e, w') \<Rightarrow> h e w' | (Inr x, w') \<Rightarrow> (Inr x, w'))"

definition emit :: "event \<Rightarrow> unit io" where
  "emit ev w = (Inr (), w\<lparr>trace := trace w @ [ev]\<rparr>)"

text \<open>One HTTP request: it is recorded and the environment answers.\<close>

definition http :: "env \<Rightarrow> gateway_request \<Rightarrow> http_result io" where
  "http e rq = bind (emit (GatewayCall rq)) (\<lambda>_. ret (gateway e rq))"

text \<open>The first element that satisfies the test is replaced (\<^verbatim>\<open>.first()\<close>, then assignment).\<close>

fun update_first :: "('a \<Rightarrow> bool) \<Rightarrow> ('a \<Rightarrow> 'a) \<Rightarrow> 'a list \<Rightarrow> 'a list" where
  "update_first P f [] = []"
| "update_first P f (x # xs) = (if P x then f x # xs else x # update_first P f xs)"

section \<open>Storage port (adapters/db.py)\<close>

text \<open>
  \<^verbatim>\<open>DatabaseAdapter._payment_record_to_response\<close>. The metadata is rebuilt from
  the columns; \<^verbatim>\<open>additional_data\<close> is decoded and merged in when it decodes to
  an object, and kept as text under the key \<^verbatim>\<open>additional_data\<close> when decoding
  raises. (A stored text that decodes to something other than an object is
  treated like the second case; \<^verbatim>\<open>save_payment\<close> only ever stores the dump of a
  dict.)
\<close>

definition put_if_truthy :: "string \<Rightarrow> json \<Rightarrow> pydict \<Rightarrow> pydict" where
  "put_if_truthy k v d = (if truthy v then dict_set d k v else d)"

definition payment_record_to_response :: "env \<Rightarrow> PaymentRecord \<Rightarrow> PaymentResponse" where
  "payment_record_to_response e r =
     (let m0 = put_if_truthy ''bank_code'' (bank_code r)
                (put_if_truthy ''virtual_account_number'' (virtual_account_number r)
                  (put_if_truthy ''qr_code_url'' (qr_code_url r)
                    (put_if_truthy ''redirect_url'' (redirect_url r)
                      (put_if_truthy ''token'' (token r) []))));
          metadata =
            (case additional_data r of
               None \<Rightarrow> m0
             | Some txt \<Rightarrow>
                 if txt = [] then m0
                 else (case json_loads e txt of
                         Some (JObj additional) \<Rightarrow> dict_update m0 additional
                       | _ \<Rightarrow> dict_set m0 ''additional_data'' (JStr txt)))
      in \<lparr> p_id = payment_id r,
           p_order_id = order_id r,
           p_transaction_id = payment_id r,
           p_amount = amount r,
           p_status = status r,
           p_payment_method = payment_method r,
           p_payment_url = payment_url r,
           p_created_at = created_at r,
           p_updated_at = updated_at r,
           p_metadata = (if metadata \<noteq> [] then Some metadata else None) \<rparr>)"

text \<open>
  The columns of \<^verbatim>\<open>PaymentRecord\<close> as PostgreSQL stores values in them.
  \<^verbatim>\<open>DECIMAL(15, 2)\<close> rounds to two decimals, ties away from zero, and refuses a
  value whose rounded magnitude reaches \<open>10^13\<close>. \<^verbatim>\<open>String(n)\<close> refuses a string
  longer than \<open>n\<close>, unless the excess is spaces only, which it cuts off.
  \<^verbatim>\<open>Text\<close> has no limit. \<open>None\<close> is a refused value: the commit raises.
\<close>

definition decimal_15_2 :: "money \<Rightarrow> money option" where
  "decimal_15_2 a =
     (let cents = (if 0 \<le> a then \<lfloor>a * 100 + 1 / 2\<rfloor> else - \<lfloor>- a * 100 + 1 / 2\<rfloor>)
      in if \<bar>cents\<bar> < 10 ^ 15 then Some (of_int cents / 100) else None)"

definition varchar :: "nat \<Rightarrow> string \<Rightarrow> string option" where
  "varchar n s =
     (if length s \<le> n then Some s
      else if list_all (\<lambda>c. c = CHR '' '') (drop n s) then Some (take n s)
      else None)"

text \<open>
  A value taken from the metadata and bound to a \<^verbatim>\<open>String(n)\<close> or a \<^verbatim>\<open>Text\<close>
  column: \<^verbatim>\<open>None\<close> is stored as NULL, a string as text, anything else as the
  text the driver makes of it.
\<close>

definition varchar_json :: "env \<Rightarrow> nat \<Rightarrow> json \<Rightarrow> json option" where
  "varchar_json e n v =
     (case v of
        JNull \<Rightarrow> Some JNull
      | JStr s \<Rightarrow> map_option JStr (varchar n s)
      | _ \<Rightarrow> (case column_text e v of
                None \<Rightarrow> None
              | Some s \<Rightarrow> map_option JStr (varchar n s)))"

definition text_json :: "env \<Rightarrow> json \<Rightarrow> json option" where
  "text_json e v =
     (case v of
        JNull \<Rightarrow> Some JNull
      | JStr s \<Rightarrow> Some (JStr s)
      | _ \<Rightarrow> map_option JStr (column_text e v))"

text \<open>
  The assignments both branches of \<^verbatim>\<open>save_payment\<close> make under
  \<^verbatim>\<open>if payment.metadata:\<close>, each value as its column stores it; \<open>None\<close> when
  a column refuses its value.
\<close>

definition store_metadata :: "env \<Rightarrow> pydict option \<Rightarrow> PaymentRecord \<Rightarrow> PaymentRecord option" where
  "store_metadata e md r =
     (case md of
        None \<Rightarrow> Some r
      | Some m \<Rightarrow>
          if m = [] then Some r
          else
     (case varchar_json e 500 (dict_get m ''token'') of None \<Rightarrow> None | Some tok \<Rightarrow>
     (case text_json e (dict_get m ''redirect_url'') of None \<Rightarrow> None | Some url \<Rightarrow>
     (case text_json e (dict_get m ''qr_code_url'') of None \<Rightarrow> None | Some qr \<Rightarrow>
     (case varchar_json e 255 (dict_get m ''virtual_account_number'') of None \<Rightarrow> None | Some va \<Rightarrow>
     (case varchar_json e 50 (dict_get m ''bank_code'') of None \<Rightarrow> None | Some bank \<Rightarrow>
        Some (r\<lparr> token := tok,
                 redirect_url := url,
                 qr_code_url := qr,
                 virtual_account_number := va,
                 bank_code := bank,
                 additional_data := Some (json_dumps e (JObj m)) \<rparr>)))))))"

text \<open>
  \<^verbatim>\<open>DatabaseAdapter.save_payment\<close>: an upsert on \<^verbatim>\<open>payment_id\<close>. An existing
  row keeps its \<^verbatim>\<open>payment_id\<close>, \<^verbatim>\<open>order_id\<close> and \<^verbatim>\<open>created_at\<close>; everything
  else is overwritten and \<^verbatim>\<open>updated_at\<close> becomes \<^verbatim>\<open>datetime.utcnow()\<close>.
  \<open>overwrite_existing\<close> and \<open>new_payment\<close> give the row as the table holds it
  after the commit, \<open>None\<close> when a column refuses a value.
\<close>

definition overwrite_existing ::
  "env \<Rightarrow> PaymentResponse \<Rightarrow> PaymentRecord \<Rightarrow> PaymentRecord option" where
  "overwrite_existing e p existing =
     (case decimal_15_2 (p_amount p) of
        None \<Rightarrow> None
      | Some stored_amount \<Rightarrow>
          store_metadata e (p_metadata p)
            (existing\<lparr> status := p_status p,
                       amount := stored_amount,
                       payment_method := p_payment_method p,
                       transaction_time := p_created_at p,
                       payment_url := p_payment_url p,
                       updated_at := utcnow e \<rparr>))"

definition new_payment :: "env \<Rightarrow> PaymentResponse \<Rightarrow> PaymentRecord option" where
  "new_payment e p =
     (case varchar 255 (p_id p) of None \<Rightarrow> None | Some stored_id \<Rightarrow>
     (case varchar 255 (p_order_id p) of None \<Rightarrow> None | Some stored_order_id \<Rightarrow>
     (case decimal_15_2 (p_amount p) of None \<Rightarrow> None | Some stored_amount \<Rightarrow>
        store_metadata e (p_metadata p)
          \<lparr> payment_id = stored_id,
            order_id = stored_order_id,
            status = p_status p,
            amount = stored_amount,
            payment_method = p_payment_method p,
            transaction_time = p_created_at p,
            expiry_time = None,
            payment_url = p_payment_url p,
            token = JNull,
            redirect_url = JNull,
            qr_code_url = JNull,
            virtual_account_number = JNull,
            bank_code = JNull,
            additional_data = None,
            created_at = p_created_at p,
            updated_at = p_updated_at p \<rparr>)))"

text \<open>
  The \<^verbatim>\<open>ValueError\<close> that leaves \<^verbatim>\<open>save_payment\<close> when the commit raises an
  \<^verbatim>\<open>SQLAlchemyError\<close>; the session is rolled back and the table is as before.
\<close>

definition save_failed :: exn where
  "save_failed = ValueError (Fmt ''Failed to save payment: {}'' [AExn (PyError ''SQLAlchemyError'')])"

definition save_payment :: "env \<Rightarrow> PaymentResponse \<Rightarrow> unit io" where
  "save_payment e p =
     bind (emit (SelectById (p_id p))) (\<lambda>_ w.
       (case find (\<lambda>r. payment_id r = p_id p) (db w) of
          Some existing \<Rightarrow>
            (case overwrite_existing e p existing of
               None \<Rightarrow> raise save_failed w
             | Some row \<Rightarrow>
                 emit (Commit (p_id p))
                   (w\<lparr>db := update_first (\<lambda>r. payment_id r = p_id p) (\<lambda>r. row) (db w)\<rparr>))
        | None \<Rightarrow>
            (case new_payment e p of
               None \<Rightarrow> raise save_failed w
             | Some row \<Rightarrow>
                 if find (\<lambda>r. payment_id r = payment_id row) (db w) \<noteq> None
                 then raise save_failed w
                 else emit (Commit (p_id p)) (w\<lparr>db := db w @ [row]\<rparr>))))"

text \<open>\<^verbatim>\<open>DatabaseAdapter.get_payment\<close>.\<close>

definition storage_get_payment :: "env \<Rightarrow> string \<Rightarrow> PaymentResponse option io" where
  "storage_get_payment e pid =
     bind (emit (SelectById pid)) (\<lambda>_ w.
       ret (map_option (payment_record_to_response e) (find (\<lambda>r. payment_id r = pid) (db w))) w)"

text \<open>
  \<^verbatim>\<open>DatabaseAdapter.update_payment_status\<close>. The \<^verbatim>\<open>ValueError\<close> for a missing
  row is not an \<^verbatim>\<open>SQLAlchemyError\<close> and leaves the function as it is.
\<close>

definition update_payment_status :: "env \<Rightarrow> string \<Rightarrow> PaymentStatus \<Rightarrow> unit io" where
  "update_payment_status e pid st =
     bind (emit (SelectById pid)) (\<lambda>_ w.
       (case find (\<lambda>r. payment_id r = pid) (db w) of
          Some record \<Rightarrow>
            emit (Commit pid)
              (w\<lparr>db := update_first (\<lambda>r. payment_id r = pid)
                          (\<lambda>r. r\<lparr>status := st, updated_at := utcnow e\<rparr>) (db w)\<rparr>)
        | None \<Rightarrow> raise (ValueError (Fmt ''Payment with ID {} not found'' [AStr pid])) w))"

text \<open>
  \<^verbatim>\<open>DatabaseAdapter.get_payments_by_order\<close>: the rows of the order, newest
  \<^verbatim>\<open>created_at\<close> first. Rows with equal \<^verbatim>\<open>created_at\<close> keep their table order
  (the database leaves their order open).
\<close>

definition get_payments_by_order :: "env \<Rightarrow> string \<Rightarrow> PaymentResponse list io" where
  "get_payments_by_order e oid =
     bind (emit (SelectByOrder oid)) (\<lambda>_ w.
       ret (map (payment_record_to_response e)
              (sort_key (\<lambda>r. - created_at r) (filter (\<lambda>r. order_id r = oid) (db w)))) w)"

section \<open>Gateway port (adapters/midtrans_adapter.py)\<close>

definition lift :: "exn + 'a \<Rightarrow> 'a io" where
  "lift r = (case r of Inl e \<Rightarrow> raise e | Inr x \<Rightarrow> ret x)"

text \<open>
  Validation of a \<^verbatim>\<open>str\<close> and of an \<^verbatim>\<open>Optional[str]\<close> field by pydantic. A
  string is accepted; what happens to another value depends on the library
  version and is the parameter \<open>coerce_str\<close>.
\<close>

definition validate_str :: "env \<Rightarrow> json \<Rightarrow> exn + string" where
  "validate_str e v =
     (case v of
        JStr s \<Rightarrow> Inr s
      | JNull \<Rightarrow> Inl (PyError ''ValidationError'')
      | _ \<Rightarrow> (case coerce_str e v of
                None \<Rightarrow> Inl (PyError ''ValidationError'')
              | Some s \<Rightarrow> Inr s))"

definition validate_opt_str :: "env \<Rightarrow> json \<Rightarrow> exn + string option" where
  "validate_opt_str e v =
     (case v of
        JNull \<Rightarrow> Inr None
      | _ \<Rightarrow> (case validate_str e v of Inl x \<Rightarrow> Inl x | Inr s \<Rightarrow> Inr (Some s)))"

text \<open>\<^verbatim>\<open>float(v)\<close>.\<close>

definition to_float :: "env \<Rightarrow> json \<Rightarrow> exn + money" where
  "to_float e v = (case py_float e v of None \<Rightarrow> Inl (PyError ''float'') | Some a \<Rightarrow> Inr a)"

text \<open>\<^verbatim>\<open>MidtransAdapter._map_payment_method\<close>.\<close>

fun map_payment_method :: "PaymentMethod \<Rightarrow> pydict" where
  "map_payment_method CREDIT_CARD =
     [(''enabled_payments'', JArr [JStr ''credit_card'']),
      (''credit_card'', JObj [(''secure'', JBool True)])]"
| "map_payment_method BANK_TRANSFER =
     [(''enabled_payments'', JArr [JStr ''bank_transfer'']),
      (''bank_transfer'', JObj [(''bank'', JStr ''bca'')])]"
| "map_payment_method E_WALLET =
     [(''enabled_payments'', JArr [JStr ''gopay'']),
      (''gopay'', JObj [(''enable_callback'', JBool True)])]"
| "map_payment_method QRIS =
     [(''enabled_payments'', JArr [JStr ''qris'']),
      (''qris'', JObj [(''acquirer'', JStr ''gopay'')])]"
| "map_payment_method RETAIL =
     [(''enabled_payments'', JArr [JStr ''cstore'']),
      (''cstore'', JObj [(''store'', JStr ''indomaret'')])]"

text \<open>
  What \<^verbatim>\<open>create_payment\<close> does with the answer to its POST, inside the
  \<^verbatim>\<open>try\<close>: any status but 201 raises, the body must decode to an object, and
  the response is built with id \<^verbatim>\<open>payment-{order_id}\<close>, status PENDING and both
  timestamps equal to the time read on entry.
\<close>

definition build_created :: "env \<Rightarrow> PaymentRequest \<Rightarrow> http_result \<Rightarrow> exn + PaymentResponse" where
  "build_created e rq r =
     (case r of
        NetworkError \<Rightarrow> Inl (PyError ''RequestException'')
      | Response code body \<Rightarrow>
          if code \<noteq> 201 then
            Inl (ValueError (Fmt ''Midtrans API error: {} - {}'' [ACode code, ABody body]))
          else
            (case body of
               None \<Rightarrow> Inl (PyError ''JSONDecodeError'')
             | Some (JObj result) \<Rightarrow>
                 (let metadata =
                        [(''token'', dict_get result ''token''),
                         (''redirect_url'', dict_get result ''redirect_url''),
                         (''midtrans_response'', JObj result),
                         (''payment_config'', JObj (map_payment_method (rq_payment_method rq))),
                         (''expiry_duration'', JNum (of_int (rq_expiry_duration rq)))]
                  in case validate_opt_str e (dict_get result ''redirect_url'') of
                       Inl x \<Rightarrow> Inl x
                     | Inr url \<Rightarrow>
                         Inr \<lparr> p_id = ''payment-'' @ rq_order_id rq,
                               p_order_id = rq_order_id rq,
                               p_transaction_id = rq_order_id rq,
                               p_amount = rq_amount rq,
                               p_status = PENDING,
                               p_payment_method = rq_payment_method rq,
                               p_payment_url = url,
                               p_created_at = now e,
                               p_updated_at = now e,
                               p_metadata = Some metadata \<rparr>)
             | Some _ \<Rightarrow> Inl (PyError ''AttributeError'')))"

text \<open>
  \<^verbatim>\<open>MidtransAdapter.create_payment\<close>. The two validations come before the
  request; every exception raised inside the \<^verbatim>\<open>try\<close> leaves as a
  \<^verbatim>\<open>ValueError\<close>.
\<close>

definition midtrans_create_payment :: "env \<Rightarrow> PaymentRequest \<Rightarrow> PaymentResponse io" where
  "midtrans_create_payment e rq =
     (if rq_order_id rq = [] then raise (ValueError (Fmt ''Order ID is required'' []))
      else if rq_amount rq \<le> 0 then raise (ValueError (Fmt ''Amount must be greater than 0'' []))
      else
        try_except
          (bind (http e PostSnap) (\<lambda>r. lift (build_created e rq r)))
          (\<lambda>x. if x = PyError ''RequestException''
                then raise (ValueError (Fmt ''Failed to create payment with Midtrans: {}'' [AExn x]))
                else raise (ValueError (Fmt ''Unexpected error creating payment: {}'' [AExn x]))))"

text \<open>\<^verbatim>\<open>MidtransAdapter.get_payment_status\<close>: one GET, then the mapping above.\<close>

definition midtrans_get_payment_status :: "env \<Rightarrow> string \<Rightarrow> PaymentStatus io" where
  "midtrans_get_payment_status e oid =
     bind (http e (GetStatus oid)) (\<lambda>r. ret (status_of_response r))"

text \<open>
  \<^verbatim>\<open>response.raise_for_status()\<close> followed by \<^verbatim>\<open>response.json()\<close>: a network
  failure and a status from 400 to 599 are exceptions of \<^verbatim>\<open>requests\<close>.
\<close>

definition checked_json :: "http_result \<Rightarrow> exn + json" where
  "checked_json r =
     (case r of
        NetworkError \<Rightarrow> Inl (PyError ''RequestException'')
      | Response code body \<Rightarrow>
          if 400 \<le> code \<and> code < 600 then Inl (PyError ''RequestException'')
          else (case body of None \<Rightarrow> Inl (PyError ''JSONDecodeError'') | Some j \<Rightarrow> Inr j))"

text \<open>\<^verbatim>\<open>except requests.exceptions.RequestException as e: raise ValueError(...)\<close>.\<close>

definition except_request_exception :: "string \<Rightarrow> 'a io \<Rightarrow> 'a io" where
  "except_request_exception template m =
     try_except m
       (\<lambda>x. if x = PyError ''RequestException''
             then raise (ValueError (Fmt template [AExn x]))
             else raise x)"

text \<open>
  The \<^verbatim>\<open>PaymentResponse\<close> that \<^verbatim>\<open>cancel_payment\<close> and \<^verbatim>\<open>refund_payment\<close>
  build from the decoded answer.
\<close>

definition build_changed ::
  "env \<Rightarrow> string \<Rightarrow> PaymentStatus \<Rightarrow> money \<Rightarrow> json \<Rightarrow> exn + PaymentResponse" where
  "build_changed e tid st amt j =
     (case j of
        JObj result \<Rightarrow>
          (case validate_str e (dict_get_default result ''order_id'' (JStr tid)) of
             Inl x \<Rightarrow> Inl x
           | Inr oid \<Rightarrow>
               Inr \<lparr> p_id = ''payment-'' @ tid,
                     p_order_id = oid,
                     p_transaction_id = tid,
                     p_amount = amt,
                     p_status = st,
                     p_payment_method = CREDIT_CARD,
                     p_payment_url = None,
                     p_created_at = now e,
                     p_updated_at = now e,
                     p_metadata = Some result \<rparr>)
      | _ \<Rightarrow> Inl (PyError ''AttributeError''))"

text \<open>The amount read from an answer: \<^verbatim>\<open>float(result.get("gross_amount", 0))\<close>.\<close>

definition gross_amount_of :: "env \<Rightarrow> json \<Rightarrow> exn + money" where
  "gross_amount_of e j =
     (case j of
        JObj result \<Rightarrow> to_float e (dict_get_default result ''gross_amount'' (JNum 0))
      | _ \<Rightarrow> Inl (PyError ''AttributeError''))"

text \<open>\<^verbatim>\<open>MidtransAdapter.cancel_payment\<close>.\<close>

definition midtrans_cancel_payment :: "env \<Rightarrow> string \<Rightarrow> PaymentResponse io" where
  "midtrans_cancel_payment e tid =
     except_request_exception ''Failed to cancel payment: {}''
       (bind (http e (PostCancel tid)) (\<lambda>r.
        bind (lift (checked_json r)) (\<lambda>j.
        bind (lift (gross_amount_of e j)) (\<lambda>amt.
        lift (build_changed e tid CANCELED amt j)))))"

text \<open>
  \<^verbatim>\<open>MidtransAdapter.refund_payment\<close>: without an amount the adapter first asks
  the gateway for the transaction and takes its gross amount.
\<close>

definition midtrans_refund_payment :: "env \<Rightarrow> string \<Rightarrow> money option \<Rightarrow> PaymentResponse io" where
  "midtrans_refund_payment e tid amount_opt =
     except_request_exception ''Failed to refund payment: {}''
       (bind (case amount_opt of
                Some a \<Rightarrow> ret a
              | None \<Rightarrow>
                  bind (http e (GetStatus tid)) (\<lambda>sr.
                  bind (lift (checked_json sr)) (\<lambda>sj. lift (gross_amount_of e sj))))
          (\<lambda>amt.
             bind (http e (PostRefund tid)) (\<lambda>r.
             bind (lift (checked_json r)) (\<lambda>j.
             lift (build_changed e tid REFUNDED amt j)))))"

text \<open>
  \<^verbatim>\<open>MidtransAdapter.handle_notification\<close>. Every exception inside leaves as a
  \<^verbatim>\<open>ValueError\<close>.
\<close>

definition normalize_notification :: "env \<Rightarrow> pydict \<Rightarrow> exn + PaymentNotification" where
  "normalize_notification e d =
     (case to_float e (dict_get_default d ''gross_amount'' (JNum 0)) of
        Inl x \<Rightarrow> Inl x
      | Inr gross_amount \<Rightarrow>
     (case notification_status (dict_get_default d ''transaction_status'' (JStr '''')) of
        Inl x \<Rightarrow> Inl x
      | Inr st \<Rightarrow>
     (case validate_str e (dict_get_default d ''transaction_id'' (JStr '''')) of
        Inl x \<Rightarrow> Inl x
      | Inr tid \<Rightarrow>
     (case validate_str e (dict_get_default d ''order_id'' (JStr '''')) of
        Inl x \<Rightarrow> Inl x
      | Inr oid \<Rightarrow>
     (case validate_str e (dict_get_default d ''payment_type'' (JStr '''')) of
        Inl x \<Rightarrow> Inl x
      | Inr ptype \<Rightarrow>
          Inr \<lparr> nt_transaction_id = tid,
                nt_order_id = oid,
                nt_status = st,
                nt_amount = gross_amount,
                nt_payment_type = ptype,
                nt_processed_at = now e \<rparr>)))))"

definition midtrans_handle_notification :: "env \<Rightarrow> pydict \<Rightarrow> PaymentNotification io" where
  "midtrans_handle_notification e d =
     (case normalize_notification e d of
        Inl x \<Rightarrow> raise (ValueError (Fmt ''Failed to process notification: {}'' [AExn x]))
      | Inr n \<Rightarrow> ret n)"

section \<open>Reconciliation service (domain/services.py)\<close>

text \<open>\<^verbatim>\<open>PaymentService.create_payment\<close>.\<close>

definition create_payment :: "env \<Rightarrow> PaymentRequest \<Rightarrow> PaymentResponse io" where
  "create_payment e rq =
     try_except
       (bind (midtrans_create_payment e rq) (\<lambda>payment_response.
        bind (save_payment e payment_response) (\<lambda>_. ret payment_response)))
       (\<lambda>x. raise (ValueError (Fmt ''Failed to create payment: {}'' [AExn x])))"

text \<open>
  \<^verbatim>\<open>PaymentService.get_payment\<close>, read with refresh. The inner \<^verbatim>\<open>try\<close> keeps
  the payment read first when anything inside raises.
\<close>

definition get_payment :: "env \<Rightarrow> string \<Rightarrow> PaymentResponse option io" where
  "get_payment e pid =
     try_except
       (bind (storage_get_payment e pid) (\<lambda>found.
          case found of
            None \<Rightarrow> ret None
          | Some payment \<Rightarrow>
              if p_status payment \<in> set [PENDING, PROCESSING] then
                try_except
                  (bind (midtrans_get_payment_status e (p_order_id payment)) (\<lambda>latest_status.
                     if latest_status \<noteq> p_status payment then
                       bind (update_payment_status e (p_id payment) latest_status) (\<lambda>_.
                         storage_get_payment e (p_id payment))
                     else ret (Some payment)))
                  (\<lambda>x. ret (Some payment))
              else ret (Some payment)))
       (\<lambda>x. raise (ValueError (Fmt ''Failed to get payment: {}'' [AExn x])))"

text \<open>\<^verbatim>\<open>PaymentService.get_payment_status\<close>, the forced check.\<close>

definition get_payment_status :: "env \<Rightarrow> string \<Rightarrow> PaymentStatus io" where
  "get_payment_status e pid =
     bind (storage_get_payment e pid) (\<lambda>found.
       case found of
         None \<Rightarrow> raise (ValueError (Fmt ''Payment with ID {} not found'' [AStr pid]))
       | Some payment \<Rightarrow>
           try_except
             (bind (midtrans_get_payment_status e (p_order_id payment)) (\<lambda>latest_status.
                if latest_status \<noteq> p_status payment then
                  bind (update_payment_status e pid latest_status) (\<lambda>_. ret latest_status)
                else ret (p_status payment)))
             (\<lambda>x. ret (p_status payment)))"

text \<open>\<^verbatim>\<open>PaymentService.cancel_payment\<close>.\<close>

definition cancel_payment :: "env \<Rightarrow> string \<Rightarrow> PaymentResponse option io" where
  "cancel_payment e pid =
     bind (storage_get_payment e pid) (\<lambda>found.
       case found of
         None \<Rightarrow> raise (ValueError (Fmt ''Payment with ID {} not found'' [AStr pid]))
       | Some payment \<Rightarrow>
           if p_status payment \<notin> set [PENDING, PROCESSING] then
             raise (ValueError (Fmt ''Cannot cancel payment with status: {}''
                                  [AStatus (p_status payment)]))
           else
             bind (midtrans_cancel_payment e (p_order_id payment)) (\<lambda>updated_payment.
             bind (update_payment_status e pid CANCELED) (\<lambda>_.
             storage_get_payment e pid)))"

text \<open>\<^verbatim>\<open>PaymentService.refund_payment\<close>.\<close>

definition refund_payment :: "env \<Rightarrow> string \<Rightarrow> money option \<Rightarrow> PaymentResponse option io" where
  "refund_payment e pid amount_opt =
     bind (storage_get_payment e pid) (\<lambda>found.
       case found of
         None \<Rightarrow> raise (ValueError (Fmt ''Payment with ID {} not found'' [AStr pid]))
       | Some payment \<Rightarrow>
           if p_status payment \<noteq> SUCCESS then
             raise (ValueError (Fmt ''Cannot refund payment with status: {}''
                                  [AStatus (p_status payment)]))
           else
             bind (midtrans_refund_payment e (p_order_id payment) amount_opt) (\<lambda>updated_payment.
             bind (update_payment_status e pid REFUNDED) (\<lambda>_.
             storage_get_payment e pid)))"

text \<open>
  The update both notification paths make once the payments of the order are
  read: the first of the list is the active payment, and it is written only when
  its status differs from the notified one.
\<close>

definition update_if_changed :: "env \<Rightarrow> PaymentResponse \<Rightarrow> PaymentStatus \<Rightarrow> unit io" where
  "update_if_changed e payment st =
     (if p_status payment \<noteq> st then update_payment_status e (p_id payment) st else ret ())"

text \<open>\<^verbatim>\<open>PaymentService.handle_notification\<close>.\<close>

definition handle_notification :: "env \<Rightarrow> pydict \<Rightarrow> PaymentNotification io" where
  "handle_notification e notification_data =
     try_except
       (bind (midtrans_handle_notification e notification_data) (\<lambda>notification.
        bind (get_payments_by_order e (nt_order_id notification)) (\<lambda>payments.
        bind (case payments of
                [] \<Rightarrow> ret ()
              | payment # _ \<Rightarrow> update_if_changed e payment (nt_status notification))
          (\<lambda>_. ret notification))))
       (\<lambda>x. raise (ValueError (Fmt ''Failed to handle notification: {}'' [AExn x])))"

section \<open>Webhook processor (adapters/webhook_handler.py)\<close>

text \<open>
  How an f-string prints a field of the payload: a string as it is, a missing
  field (\<^verbatim>\<open>None\<close>) as \<^verbatim>\<open>None\<close>, anything else as the interpreter prints it.
\<close>

definition format_field :: "env \<Rightarrow> json \<Rightarrow> string" where
  "format_field e v = (case v of JStr s \<Rightarrow> s | JNull \<Rightarrow> ''None'' | _ \<Rightarrow> py_str e v)"

text \<open>The string that is hashed: the three fields and the server key, in this order.\<close>

definition signature_string :: "env \<Rightarrow> string \<Rightarrow> pydict \<Rightarrow> string" where
  "signature_string e server_key d =
     format_field e (dict_get d ''order_id'') @ format_field e (dict_get d ''status_code'')
       @ format_field e (dict_get d ''gross_amount'') @ server_key"

text \<open>
  \<^verbatim>\<open>WebhookHandler.verify_signature\<close>: an exception while hashing is caught and
  the answer is \<^verbatim>\<open>False\<close>.
\<close>

definition verify_signature :: "env \<Rightarrow> string \<Rightarrow> pydict \<Rightarrow> bool" where
  "verify_signature e server_key d =
     (case sha512_hexdigest e (signature_string e server_key d) of
        None \<Rightarrow> False
      | Some calculated_signature \<Rightarrow> JStr calculated_signature = dict_get d ''signature_key'')"

text \<open>\<^verbatim>\<open>WebhookHandler.parse_notification\<close>.\<close>

definition required_fields :: "string list" where
  "required_fields =
     [''transaction_id'', ''order_id'', ''transaction_status'', ''gross_amount'', ''payment_type'']"

definition parse_notification :: "env \<Rightarrow> pydict \<Rightarrow> exn + WebhookNotification" where
  "parse_notification e d =
     (case find (\<lambda>field. map_of d field = None) required_fields of
        Some field \<Rightarrow> Inl (HTTPException 400 (Fmt ''Missing required field: {}'' [AStr field]))
      | None \<Rightarrow>
     (case validate_str e (dict_get d ''transaction_id'') of Inl x \<Rightarrow> Inl x | Inr tid \<Rightarrow>
     (case validate_str e (dict_get d ''order_id'') of Inl x \<Rightarrow> Inl x | Inr oid \<Rightarrow>
     (case validate_str e (dict_get d ''transaction_status'') of Inl x \<Rightarrow> Inl x | Inr ts \<Rightarrow>
     (case validate_str e (dict_get d ''gross_amount'') of Inl x \<Rightarrow> Inl x | Inr ga \<Rightarrow>
     (case validate_str e (dict_get d ''payment_type'') of Inl x \<Rightarrow> Inl x | Inr pt \<Rightarrow>
     (case validate_opt_str e (dict_get d ''fraud_status'') of Inl x \<Rightarrow> Inl x | Inr fs \<Rightarrow>
     (case validate_opt_str e (dict_get d ''signature_key'') of Inl x \<Rightarrow> Inl x | Inr sk \<Rightarrow>
     (case validate_opt_str e (dict_get d ''transaction_time'') of Inl x \<Rightarrow> Inl x | Inr tt \<Rightarrow>
        Inr \<lparr> wh_transaction_id = tid,
              wh_order_id = oid,
              wh_transaction_status = ts,
              wh_gross_amount = ga,
              wh_payment_type = pt,
              wh_fraud_status = fs,
              wh_signature_key = sk,
              wh_transaction_time = tt \<rparr>)))))))))"

text \<open>The two dicts \<^verbatim>\<open>process_webhook\<close> returns.\<close>

definition warning_result :: pydict where
  "warning_result = [(''status'', JStr ''warning''), (''message'', JStr ''Payment not found'')]"

definition success_result :: "PaymentResponse \<Rightarrow> PaymentStatus \<Rightarrow> pydict" where
  "success_result payment new_status =
     [(''status'', JStr ''success''),
      (''message'', JStr ''Notification processed successfully''),
      (''payment_id'', JStr (p_id payment)),
      (''old_status'', JStr (status_value (p_status payment))),
      (''new_status'', JStr (status_value new_status))]"

text \<open>
  \<^verbatim>\<open>WebhookHandler.process_webhook\<close>. An \<^verbatim>\<open>HTTPException\<close> leaves as it is,
  any other exception as an \<^verbatim>\<open>HTTPException\<close> with status 500.
\<close>

definition process_webhook :: "env \<Rightarrow> string \<Rightarrow> pydict \<Rightarrow> bool \<Rightarrow> pydict io" where
  "process_webhook e server_key notification_data verify =
     try_except
       (if verify \<and> \<not> verify_signature e server_key notification_data then
          raise (HTTPException 401 (Fmt ''Invalid signature'' []))
        else
          bind (lift (parse_notification e notification_data)) (\<lambda>notification.
            let new_status = map_status_to_payment_status (wh_transaction_status notification)
                               (wh_fraud_status notification)
            in bind (get_payments_by_order e (wh_order_id notification)) (\<lambda>payments.
                 case payments of
                   [] \<Rightarrow> ret warning_result
                 | payment # _ \<Rightarrow>
                     bind (update_if_changed e payment new_status) (\<lambda>_.
                       ret (success_result payment new_status)))))
       (\<lambda>x. case x of
               HTTPException code detail \<Rightarrow> raise x
             | _ \<Rightarrow> raise (HTTPException 500 (Fmt ''Failed to process webhook: {}'' [AExn x])))"

section \<open>Operations as steps\<close>

text \<open>
  The update operations on stored payments, each with the environment it runs
  in, and the world after one of them (the value it returns is dropped).
\<close>

datatype operation =
    Get string
  | ForceCheck string
  | Notify pydict
  | Webhook string pydict bool
  | Cancel string
  | Refund string "money option"

fun step :: "env \<Rightarrow> operation \<Rightarrow> world \<Rightarrow> world" where
  "step e (Get pid) w = snd (get_payment e pid w)"
| "step e (ForceCheck pid) w = snd (get_payment_status e pid w)"
| "step e (Notify d) w = snd (handle_notification e d w)"
| "step e (Webhook server_key d verify) w = snd (process_webhook e server_key d verify w)"
| "step e (Cancel pid) w = snd (cancel_payment e pid w)"
| "step e (Refund pid amt) w = snd (refund_payment e pid amt w)"

text \<open>The stored status of a payment, and the primary-key constraint of the table.\<close>

definition stored_status :: "world \<Rightarrow> string \<Rightarrow> PaymentStatus option" where
  "stored_status w pid = map_option status (find (\<lambda>r. payment_id r = pid) (db w))"

definition stored :: "world \<Rightarrow> string \<Rightarrow> PaymentRecord option" where
  "stored w pid = find (\<lambda>r. payment_id r = pid) (db w)"

definition primary_key :: "world \<Rightarrow> bool" where
  "primary_key w = distinct (map payment_id (db w))"

text \<open>
  A status query that fails: the request raises, the answer has a status other
  than 200, its body does not decode, or mapping the decoded body raises.
\<close>

definition query_fails :: "http_result \<Rightarrow> bool" where
  "query_fails r =
     (case r of
        NetworkError \<Rightarrow> True
      | Response code body \<Rightarrow>
          if code = 200 then
            (case body of
               None \<Rightarrow> True
             | Some j \<Rightarrow> (case map_status_result j of Inl x \<Rightarrow> True | Inr st \<Rightarrow> False))
          else True)"

text \<open>
  The active payment of an order: the row \<^verbatim>\<open>get_payments_by_order\<close> lists first
  (\<^verbatim>\<open>payments[0]\<close>).
\<close>

definition active_row :: "world \<Rightarrow> string \<Rightarrow> PaymentRecord option" where
  "active_row w oid =
     (case sort_key (\<lambda>r. - created_at r) (filter (\<lambda>r. order_id r = oid) (db w)) of
        [] \<Rightarrow> None
      | r # rs \<Rightarrow> Some r)"

text \<open>The number of commits in a trace, and the gateway requests in it.\<close>

definition commits :: "event list \<Rightarrow> nat" where
  "commits evs = length (filter (\<lambda>ev. case ev of Commit pid \<Rightarrow> True | _ \<Rightarrow> False) evs)"

definition gateway_calls :: "event list \<Rightarrow> gateway_request list" where
  "gateway_calls evs = concat (map (\<lambda>ev. case ev of GatewayCall rq \<Rightarrow> [rq] | _ \<Rightarrow> []) evs)"

text \<open>
  The exception that leaves \<^verbatim>\<open>process_webhook\<close> and
  \<^verbatim>\<open>PaymentService.handle_notification\<close> when one is raised inside.
\<close>

definition as_http :: "exn \<Rightarrow> exn" where
  "as_http x = (case x of HTTPException code detail \<Rightarrow> x
                | _ \<Rightarrow> HTTPException 500 (Fmt ''Failed to process webhook: {}'' [AExn x]))"

definition as_value_error :: "exn \<Rightarrow> exn" where
  "as_value_error x = ValueError (Fmt ''Failed to handle notification: {}'' [AExn x])"

section \<open>Concrete instances\<close>

text \<open>
  An environment whose gateway is unreachable, with stand-ins for the library
  functions (the digest is not SHA-512; the theorems hold for every choice), a
  variant whose gateway answers every request with a given response, one stored
  payment of order \<^verbatim>\<open>ORD-1\<close> in a given status, the request that creates a
  payment for that order, the answer of the gateway that accepts it, the empty
  table, and a webhook payload for that order.
\<close>

definition offline_env :: env where
  "offline_env =
     \<lparr> gateway = (\<lambda>rq. NetworkError),
       now = 100,
       utcnow = 200,
       sha512_hexdigest = (\<lambda>s. Some (''digest:'' @ s)),
       py_str = (\<lambda>v. ''?''),
       py_float = (\<lambda>v. case v of
                          JNum n \<Rightarrow> Some n
                        | JStr s \<Rightarrow> (if s = ''100000.00'' then Some 100000 else None)
                        | _ \<Rightarrow> None),
       coerce_str = (\<lambda>v. None),
       json_dumps = (\<lambda>v. ''{}''),
       json_loads = (\<lambda>s. None),
       column_text = (\<lambda>v. None) \<rparr>"

definition answering_env :: "http_result \<Rightarrow> env" where
  "answering_env r = offline_env\<lparr>gateway := (\<lambda>rq. r)\<rparr>"

definition sample_row :: "PaymentStatus \<Rightarrow> PaymentRecord" where
  "sample_row st =
     \<lparr> payment_id = ''payment-ORD-1'',
       order_id = ''ORD-1'',
       status = st,
       amount = 100000,
       payment_method = QRIS,
       transaction_time = 10,
       expiry_time = None,
       payment_url = Some ''https://pay.example/1'',
       token = JStr ''tok'',
       redirect_url = JStr ''https://pay.example/1'',
       qr_code_url = JNull,
       virtual_account_number = JNull,
       bank_code = JNull,
       additional_data = None,
       created_at = 10,
       updated_at = 10 \<rparr>"

definition sample_world :: "PaymentStatus \<Rightarrow> world" where
  "sample_world st = \<lparr> db = [sample_row st], trace = [] \<rparr>"

definition sample_request :: "money \<Rightarrow> PaymentRequest" where
  "sample_request a =
     \<lparr> rq_order_id = ''ORD-1'',
       rq_amount = a,
       rq_payment_method = QRIS,
       rq_customer_details = [],
       rq_item_details = [],
       rq_description = None,
       rq_expiry_duration = 24 \<rparr>"

definition accepted :: http_result where
  "accepted =
     Response 201 (Some (JObj [(''token'', JStr ''tok''),
                               (''redirect_url'', JStr ''https://pay.example/1'')]))"

definition empty_world :: world where
  "empty_world = \<lparr> db = [], trace = [] \<rparr>"

text \<open>
  What \<^verbatim>\<open>create_payment\<close> returns for that request when the gateway accepts
  it, and the two environments of two successive creates.
\<close>

definition sample_created :: "env \<Rightarrow> money \<Rightarrow> PaymentResponse" where
  "sample_created e a =
     \<lparr> p_id = ''payment-ORD-1'',
       p_order_id = ''ORD-1'',
       p_transaction_id = ''ORD-1'',
       p_amount = a,
       p_status = PENDING,
       p_payment_method = QRIS,
       p_payment_url = Some ''https://pay.example/1'',
       p_created_at = now e,
       p_updated_at = now e,
       p_metadata =
         Some [(''token'', JStr ''tok''),
               (''redirect_url'', JStr ''https://pay.example/1''),
               (''midtrans_response'',
                  JObj [(''token'', JStr ''tok''),
                        (''redirect_url'', JStr ''https://pay.example/1'')]),
               (''payment_config'', JObj (map_payment_method QRIS)),
               (''expiry_duration'', JNum 24)] \<rparr>"

text \<open>The row an insert of that payment leaves in the table.\<close>

definition sample_created_row :: "env \<Rightarrow> money \<Rightarrow> PaymentRecord" where
  "sample_created_row e a =
     \<lparr> payment_id = ''payment-ORD-1'',
       order_id = ''ORD-1'',
       status = PENDING,
       amount = a,
       payment_method = QRIS,
       transaction_time = now e,
       expiry_time = None,
       payment_url = Some ''https://pay.example/1'',
       token = JStr ''tok'',
       redirect_url = JStr ''https://pay.example/1'',
       qr_code_url = JNull,
       virtual_account_number = JNull,
       bank_code = JNull,
       additional_data =
         Some (json_dumps e
                 (JObj [(''token'', JStr ''tok''),
                        (''redirect_url'', JStr ''https://pay.example/1''),
                        (''midtrans_response'',
                           JObj [(''token'', JStr ''tok''),
                                 (''redirect_url'', JStr ''https://pay.example/1'')]),
                        (''payment_config'', JObj (map_payment_method QRIS)),
                        (''expiry_duration'', JNum 24)])),
       created_at = now e,
       updated_at = now e \<rparr>"

definition first_env :: env where
  "first_env = answering_env accepted"

definition second_env :: env where
  "second_env = (answering_env accepted)\<lparr>now := 300, utcnow := 400\<rparr>"

definition sample_notification :: "string \<Rightarrow> pydict" where
  "sample_notification ts =
     [(''transaction_id'', JStr ''T-1''),
      (''order_id'', JStr ''ORD-1''),
      (''transaction_status'', JStr ts),
      (''gross_amount'', JStr ''100000.00''),
      (''payment_type'', JStr ''qris''),
      (''status_code'', JStr ''200''),
      (''signature_key'', JStr ''digest:ORD-1200100000.00secret'')]"

section \<open>Running the ports\<close>

lemmas io_defs = ret_def raise_def bind_def try_except_def emit_def lift_def http_def

lemma stored_trace [simp]: "stored (w\<lparr>trace := t\<rparr>) pid = stored w pid"
  by (simp add: stored_def)

lemma stored_payment_id: "stored w pid = Some r \<Longrightarrow> payment_id r = pid"
  by (auto simp: stored_def find_Some_iff)

lemma storage_get_payment_run:
  "storage_get_payment e pid w =
     (Inr (map_option (payment_record_to_response e) (stored w pid)),
      w\<lparr>trace := trace w @ [SelectById pid]\<rparr>)"
  by (simp add: storage_get_payment_def stored_def io_defs)

lemma update_payment_status_run:
  "update_payment_status e pid st w =
     (case stored w pid of
        Some r \<Rightarrow>
          (Inr (), w\<lparr>db := update_first (\<lambda>r. payment_id r = pid)
                            (\<lambda>r. r\<lparr>status := st, updated_at := utcnow e\<rparr>) (db w),
                     trace := trace w @ [SelectById pid, Commit pid]\<rparr>)
      | None \<Rightarrow>
          (Inl (ValueError (Fmt ''Payment with ID {} not found'' [AStr pid])),
           w\<lparr>trace := trace w @ [SelectById pid]\<rparr>))"
  by (simp add: update_payment_status_def stored_def io_defs split: option.splits)

lemma midtrans_get_payment_status_run:
  "midtrans_get_payment_status e oid w =
     (Inr (status_of_response (gateway e (GetStatus oid))),
      w\<lparr>trace := trace w @ [GatewayCall (GetStatus oid)]\<rparr>)"
  by (simp add: midtrans_get_payment_status_def io_defs)

lemma get_payments_by_order_run:
  "get_payments_by_order e oid w =
     (Inr (map (payment_record_to_response e)
             (sort_key (\<lambda>r. - created_at r) (filter (\<lambda>r. order_id r = oid) (db w)))),
      w\<lparr>trace := trace w @ [SelectByOrder oid]\<rparr>)"
  by (simp add: get_payments_by_order_def io_defs)

lemma find_update_first:
  "(\<And>x. P x \<Longrightarrow> P (f x)) \<Longrightarrow> find P (update_first P f xs) = map_option f (find P xs)"
  by (induction xs) auto

lemma response_fields [simp]:
  "p_id (payment_record_to_response e r) = payment_id r"
  "p_order_id (payment_record_to_response e r) = order_id r"
  "p_status (payment_record_to_response e r) = status r"
  "p_amount (payment_record_to_response e r) = amount r"
  "p_payment_url (payment_record_to_response e r) = payment_url r"
  "p_created_at (payment_record_to_response e r) = created_at r"
  "p_updated_at (payment_record_to_response e r) = updated_at r"
  by (simp_all add: payment_record_to_response_def Let_def)

lemma query_fails_pending: "query_fails r \<Longrightarrow> status_of_response r = PENDING"
  by (auto simp: query_fails_def status_of_response_def
      split: http_result.splits option.splits sum.splits if_splits)

lemma sample_stored: "stored (sample_world st) ''payment-ORD-1'' = Some (sample_row st)"
  by (simp add: stored_def sample_world_def sample_row_def)

section \<open>Status mapping: the polling path against the table\<close>

lemma map_status_result_obj:
  "map_status_result (JObj kvs) =
     (if dict_get kvs ''fraud_status'' = JStr ''deny'' then Inr FAILED
      else mapping_get status_mapping (dict_get kvs ''transaction_status''))"
  by (simp add: map_status_result_def Let_def)

lemma sample_normalize:
  "map_sum id nt_status
     (fst (midtrans_handle_notification offline_env
             ((''fraud_status'', JStr ''deny'') # sample_notification ts) empty_world))
     = notification_status (JStr ts)"
  by (simp add: midtrans_handle_notification_def normalize_notification_def to_float_def
      validate_str_def sample_notification_def dict_get_default_def offline_env_def
      notification_status_def ret_def)

text \<open>
  Claim C1, at a failing input. For \<^verbatim>\<open>transaction_status = "settlement"\<close> with
  \<^verbatim>\<open>fraud_status = "deny"\<close> the polling mapper and the webhook handler's mapper
  answer FAILED, while \<^verbatim>\<open>MidtransAdapter.handle_notification\<close>, which never
  reads the fraud status, answers SUCCESS. For \<^verbatim>\<open>"SETTLEMENT"\<close> without a fraud
  status the two notification mappers lower the key and answer SUCCESS, while
  the polling mapper looks the key up as it is and answers PENDING.
\<close>

theorem status_mappers_disagree:
  "fst (midtrans_get_payment_status
          (answering_env (status_response (JStr ''settlement'') (JStr ''deny''))) ''ORD-1''
          empty_world) = Inr FAILED \<and>
   map_status_to_payment_status ''settlement'' (Some ''deny'') = FAILED \<and>
   map_sum id nt_status
     (fst (midtrans_handle_notification offline_env
             ((''fraud_status'', JStr ''deny'') # sample_notification ''settlement'') empty_world))
     = Inr SUCCESS \<and>
   fst (midtrans_get_payment_status
          (answering_env (status_response (JStr ''SETTLEMENT'') JNull)) ''ORD-1''
          empty_world) = Inr PENDING \<and>
   map_status_to_payment_status ''SETTLEMENT'' None = SUCCESS \<and>
   map_sum id nt_status
     (fst (midtrans_handle_notification offline_env
             ((''fraud_status'', JStr ''deny'') # sample_notification ''SETTLEMENT'') empty_world))
     = Inr SUCCESS"
  by (simp add: sample_normalize midtrans_get_payment_status_run answering_env_def
      status_of_response_def status_response_def map_status_result_def dict_get_def
      dict_get_default_def status_mapping_def notification_status_mapping_def
      map_status_to_payment_status_def notification_status_def lower_def lower_char_def)

text \<open>
  Claim C2. When the gateway answers the status query with HTTP status 200 and
  an object as its body, \<^verbatim>\<open>MidtransAdapter.get_payment_status\<close> follows the
  table: a fraud status \<^verbatim>\<open>"deny"\<close> gives FAILED whatever the transaction status
  is; otherwise capture and settlement give SUCCESS, pending PENDING, deny
  FAILED, cancel CANCELED, expire EXPIRED, refund and partial_refund REFUNDED,
  and every other value of \<^verbatim>\<open>transaction_status\<close> (another string, a missing
  key, a number, and also a list or an object, whose \<^verbatim>\<open>TypeError\<close> is absorbed)
  gives PENDING. Whatever the gateway answers, the function returns a status: no
  exception leaves it.
\<close>

theorem query_status_follows_table:
  "(gateway e (GetStatus oid) = Response 200 (Some (JObj kvs)) \<longrightarrow>
    (let r = fst (midtrans_get_payment_status e oid w);
         ts = dict_get kvs ''transaction_status'';
         fs = dict_get kvs ''fraud_status''
     in (fs = JStr ''deny'' \<longrightarrow> r = Inr FAILED) \<and>
        (fs \<noteq> JStr ''deny'' \<longrightarrow>
           (ts = JStr ''capture'' \<or> ts = JStr ''settlement'' \<longrightarrow> r = Inr SUCCESS) \<and>
           (ts = JStr ''pending'' \<longrightarrow> r = Inr PENDING) \<and>
           (ts = JStr ''deny'' \<longrightarrow> r = Inr FAILED) \<and>
           (ts = JStr ''cancel'' \<longrightarrow> r = Inr CANCELED) \<and>
           (ts = JStr ''expire'' \<longrightarrow> r = Inr EXPIRED) \<and>
           (ts = JStr ''refund'' \<or> ts = JStr ''partial_refund'' \<longrightarrow> r = Inr REFUNDED) \<and>
           (ts \<notin> JStr ` {''capture'', ''settlement'', ''pending'', ''deny'', ''cancel'',
                            ''expire'', ''refund'', ''partial_refund''} \<longrightarrow> r = Inr PENDING)))) \<and>
   (\<exists>st. fst (midtrans_get_payment_status e oid w) = Inr st)"
proof -
  have unrec: "mapping_get status_mapping v = Inr PENDING \<or> (\<exists>x. mapping_get status_mapping v = Inl x)"
    if "v \<notin> JStr ` {''capture'', ''settlement'', ''pending'', ''deny'', ''cancel'',
                      ''expire'', ''refund'', ''partial_refund''}" for v
    using that by (cases v) (auto simp: status_mapping_def)
  have table: "(let r = status_of_response (Response 200 (Some (JObj kvs)));
         ts = dict_get kvs ''transaction_status'';
         fs = dict_get kvs ''fraud_status''
     in (fs = JStr ''deny'' \<longrightarrow> r = FAILED) \<and>
        (fs \<noteq> JStr ''deny'' \<longrightarrow>
           (ts = JStr ''capture'' \<or> ts = JStr ''settlement'' \<longrightarrow> r = SUCCESS) \<and>
           (ts = JStr ''pending'' \<longrightarrow> r = PENDING) \<and>
           (ts = JStr ''deny'' \<longrightarrow> r = FAILED) \<and>
           (ts = JStr ''cancel'' \<longrightarrow> r = CANCELED) \<and>
           (ts = JStr ''expire'' \<longrightarrow> r = EXPIRED) \<and>
           (ts = JStr ''refund'' \<or> ts = JStr ''partial_refund'' \<longrightarrow> r = REFUNDED) \<and>
           (ts \<notin> JStr ` {''capture'', ''settlement'', ''pending'', ''deny'', ''cancel'',
                            ''expire'', ''refund'', ''partial_refund''} \<longrightarrow> r = PENDING)))"
    unfolding Let_def status_of_response_def
    using unrec[of "dict_get kvs ''transaction_status''"]
    by (auto simp: map_status_result_obj status_mapping_def)
  show ?thesis
    using table by (simp add: midtrans_get_payment_status_run Let_def)
qed

theorem query_status_follows_table_witness:
  "gateway (answering_env (status_response (JStr ''settlement'') (JStr ''accept'')))
     (GetStatus ''ORD-1'')
     = Response 200 (Some (JObj [(''transaction_status'', JStr ''settlement''),
                                 (''fraud_status'', JStr ''accept'')])) \<and>
   fst (midtrans_get_payment_status
          (answering_env (status_response (JStr ''settlement'') (JStr ''accept''))) ''ORD-1''
          empty_world) = Inr SUCCESS \<and>
   gateway (answering_env (status_response (JStr ''settlement'') (JStr ''deny'')))
     (GetStatus ''ORD-1'')
     = Response 200 (Some (JObj [(''transaction_status'', JStr ''settlement''),
                                 (''fraud_status'', JStr ''deny'')])) \<and>
   fst (midtrans_get_payment_status
          (answering_env (status_response (JStr ''settlement'') (JStr ''deny''))) ''ORD-1''
          empty_world) = Inr FAILED \<and>
   gateway (answering_env (status_response (JStr ''authorize'') JNull)) (GetStatus ''ORD-1'')
     = Response 200 (Some (JObj [(''transaction_status'', JStr ''authorize''),
                                 (''fraud_status'', JNull)])) \<and>
   fst (midtrans_get_payment_status
          (answering_env (status_response (JStr ''authorize'') JNull)) ''ORD-1''
          empty_world) = Inr PENDING"
proof -
  have g: "gateway (answering_env (status_response ts fs)) (GetStatus ''ORD-1'')
             = Response 200 (Some (JObj [(''transaction_status'', ts), (''fraud_status'', fs)]))"
    for ts fs
    by (simp add: answering_env_def status_response_def)
  show ?thesis
    using query_status_follows_table
        [of "answering_env (status_response (JStr ''settlement'') (JStr ''accept''))" "''ORD-1''"
            "[(''transaction_status'', JStr ''settlement''), (''fraud_status'', JStr ''accept'')]"
            empty_world]
      query_status_follows_table
        [of "answering_env (status_response (JStr ''settlement'') (JStr ''deny''))" "''ORD-1''"
            "[(''transaction_status'', JStr ''settlement''), (''fraud_status'', JStr ''deny'')]"
            empty_world]
      query_status_follows_table
        [of "answering_env (status_response (JStr ''authorize'') JNull)" "''ORD-1''"
            "[(''transaction_status'', JStr ''authorize''), (''fraud_status'', JNull)]"
            empty_world]
    by (simp add: g Let_def dict_get_def dict_get_default_def)
qed

section \<open>Read with refresh and forced check\<close>

text \<open>
  Claim C7. When the stored status of a payment is SUCCESS, FAILED, CANCELED,
  EXPIRED or REFUNDED, \<^verbatim>\<open>PaymentService.get_payment\<close> returns the stored row as
  the storage port presents it (id, order id, amount, status, payment URL, both
  timestamps and the metadata rebuilt from the columns), and its only effect is
  the one query by id: no request goes to the gateway, nothing is committed and
  the table is the same.
\<close>

theorem get_terminal_is_read_only:
  assumes "stored w pid = Some r"
    and "status r \<in> {SUCCESS, FAILED, CANCELED, EXPIRED, REFUNDED}"
  shows "get_payment e pid w =
           (Inr (Some (payment_record_to_response e r)), w\<lparr>trace := trace w @ [SelectById pid]\<rparr>)"
  using assms
  by (auto simp: get_payment_def bind_def try_except_def ret_def storage_get_payment_run)

theorem get_terminal_is_read_only_witness:
  "stored (sample_world SUCCESS) ''payment-ORD-1'' = Some (sample_row SUCCESS) \<and>
   status (sample_row SUCCESS) \<in> {SUCCESS, FAILED, CANCELED, EXPIRED, REFUNDED} \<and>
   get_payment offline_env ''payment-ORD-1'' (sample_world SUCCESS) =
     (Inr (Some (payment_record_to_response offline_env (sample_row SUCCESS))),
      \<lparr>db = [sample_row SUCCESS], trace = [SelectById ''payment-ORD-1'']\<rparr>)"
proof -
  have h1: "stored (sample_world SUCCESS) ''payment-ORD-1'' = Some (sample_row SUCCESS)"
    by (rule sample_stored)
  have h2: "status (sample_row SUCCESS) \<in> {SUCCESS, FAILED, CANCELED, EXPIRED, REFUNDED}"
    by (simp add: sample_row_def)
  show ?thesis
    using h1 h2 get_terminal_is_read_only [OF h1 h2, of offline_env]
    by (simp add: sample_world_def)
qed

text \<open>
  Claim C10. For a stored payment whose status is not PENDING, a forced check
  (\<^verbatim>\<open>PaymentService.get_payment_status\<close>) during which the status query fails
  returns PENDING and leaves the row with status PENDING and a refreshed
  \<^verbatim>\<open>updated_at\<close>: the gateway port turns the failure into PENDING and the
  service commits any status that differs from the stored one. The effects are
  the query by id, the one gateway request, and the query and commit of the
  update.
\<close>

theorem force_check_failure_overwrites:
  assumes "stored w pid = Some r"
    and "status r \<noteq> PENDING"
    and "query_fails (gateway e (GetStatus (order_id r)))"
  shows "fst (get_payment_status e pid w) = Inr PENDING \<and>
         stored (snd (get_payment_status e pid w)) pid
           = Some (r\<lparr>status := PENDING, updated_at := utcnow e\<rparr>) \<and>
         trace (snd (get_payment_status e pid w))
           = trace w @ [SelectById pid, GatewayCall (GetStatus (order_id r)),
                        SelectById pid, Commit pid]"
proof -
  have st: "status_of_response (gateway e (GetStatus (order_id r))) = PENDING"
    using assms(3) by (rule query_fails_pending)
  show ?thesis
    using assms(1,2) st
    apply (simp add: get_payment_status_def bind_def try_except_def ret_def
        storage_get_payment_run midtrans_get_payment_status_run update_payment_status_run)
    apply (simp add: stored_def find_update_first)
    done
qed

theorem force_check_failure_overwrites_witness:
  "stored (sample_world SUCCESS) ''payment-ORD-1'' = Some (sample_row SUCCESS) \<and>
   status (sample_row SUCCESS) \<noteq> PENDING \<and>
   query_fails (gateway offline_env (GetStatus (order_id (sample_row SUCCESS)))) \<and>
   fst (get_payment_status offline_env ''payment-ORD-1'' (sample_world SUCCESS)) = Inr PENDING \<and>
   stored_status (snd (get_payment_status offline_env ''payment-ORD-1'' (sample_world SUCCESS)))
     ''payment-ORD-1'' = Some PENDING"
proof -
  have h1: "stored (sample_world SUCCESS) ''payment-ORD-1'' = Some (sample_row SUCCESS)"
    by (rule sample_stored)
  have h2: "status (sample_row SUCCESS) \<noteq> PENDING"
    by (simp add: sample_row_def)
  have h3: "query_fails (gateway offline_env (GetStatus (order_id (sample_row SUCCESS))))"
    by (simp add: query_fails_def offline_env_def)
  show ?thesis
    using h1 h2 h3 force_check_failure_overwrites [OF h1 h2 h3]
    by (simp add: stored_status_def stored_def)
qed

text \<open>
  Claim C6, at a failing input. The stored payment has status PROCESSING and the
  gateway is unreachable. \<^verbatim>\<open>MidtransAdapter.get_payment_status\<close> absorbs the
  failure and answers PENDING, the service sees a status that differs from the
  stored one, commits it, and returns the payment with status PENDING: neither
  the returned status nor the row is what was stored before the call.
\<close>

theorem refresh_failure_overwrites_processing:
  "stored_status (sample_world PROCESSING) ''payment-ORD-1'' = Some PROCESSING \<and>
   gateway offline_env (GetStatus ''ORD-1'') = NetworkError \<and>
   map_sum id (map_option p_status)
     (fst (get_payment offline_env ''payment-ORD-1'' (sample_world PROCESSING)))
     = Inr (Some PENDING) \<and>
   stored_status (snd (get_payment offline_env ''payment-ORD-1'' (sample_world PROCESSING)))
     ''payment-ORD-1'' = Some PENDING"
  by (simp add: get_payment_def bind_def try_except_def ret_def
      storage_get_payment_run midtrans_get_payment_status_run update_payment_status_run
      stored_status_def stored_def sample_world_def sample_row_def
      offline_env_def status_of_response_def)

section \<open>Cancel and refund\<close>

lemma validate_str_error: "validate_str e v = Inl x \<Longrightarrow> x = PyError ''ValidationError''"
  by (auto simp: validate_str_def split: json.splits option.splits)

lemma checked_json_error: "checked_json r = Inl x \<Longrightarrow> \<exists>c. x = PyError c"
  by (auto simp: checked_json_def split: http_result.splits option.splits if_splits)

lemma gross_amount_of_error: "gross_amount_of e j = Inl x \<Longrightarrow> \<exists>c. x = PyError c"
  by (auto simp: gross_amount_of_def to_float_def split: json.splits option.splits)

lemma build_changed_error: "build_changed e tid st amt j = Inl x \<Longrightarrow> \<exists>c. x = PyError c"
  by (auto simp: build_changed_def split: json.splits sum.splits dest: validate_str_error)

lemma except_request_exception_error:
  assumes "except_request_exception t m w = (Inl x, w')"
    and "\<And>y w''. m w = (Inl y, w'') \<Longrightarrow> \<exists>c. y = PyError c"
  shows "(\<exists>c. x = PyError c) \<or> (\<exists>a. x = ValueError (Fmt t a))"
  using assms
  by (cases "m w") (auto simp: except_request_exception_def try_except_def raise_def
      split: sum.splits if_splits)

text \<open>
  The exceptions of the gateway port's cancel and refund: a library exception,
  or the \<^verbatim>\<open>ValueError\<close> that wraps a failed request. Neither is the state
  error of the service.
\<close>

lemma midtrans_cancel_payment_error:
  assumes "midtrans_cancel_payment e tid w = (Inl x, w')"
  shows "(\<exists>c. x = PyError c) \<or> (\<exists>a. x = ValueError (Fmt ''Failed to cancel payment: {}'' a))"
  using assms unfolding midtrans_cancel_payment_def
  apply (rule except_request_exception_error)
  apply (auto simp: io_defs split: sum.splits prod.splits
      dest: checked_json_error gross_amount_of_error build_changed_error)
  done

lemma midtrans_refund_payment_error:
  assumes "midtrans_refund_payment e tid amt w = (Inl x, w')"
  shows "(\<exists>c. x = PyError c) \<or> (\<exists>a. x = ValueError (Fmt ''Failed to refund payment: {}'' a))"
  using assms unfolding midtrans_refund_payment_def
  apply (rule except_request_exception_error)
  apply (auto simp: io_defs split: sum.splits prod.splits option.splits
      dest: checked_json_error gross_amount_of_error build_changed_error)
  done

lemma bind_error_cases:
  "bind m f w = (Inl x, w') \<Longrightarrow>
     m w = (Inl x, w') \<or> (\<exists>y w''. m w = (Inr y, w'') \<and> f y w'' = (Inl x, w'))"
  by (cases "m w") (auto simp: bind_def split: sum.splits)

lemma update_payment_status_error:
  "update_payment_status e pid st w = (Inl x, w') \<Longrightarrow>
     x = ValueError (Fmt ''Payment with ID {} not found'' [AStr pid])"
  by (auto simp: update_payment_status_run split: option.splits)

text \<open>
  Claim C5. For a stored payment, \<^verbatim>\<open>cancel_payment\<close> raises the error
  \<^verbatim>\<open>Cannot cancel payment with status: ...\<close> exactly when the stored status is
  neither PENDING nor PROCESSING, and \<^verbatim>\<open>refund_payment\<close> raises
  \<^verbatim>\<open>Cannot refund payment with status: ...\<close> exactly when the stored status is
  not SUCCESS. The status the message names is the stored one, and when the error
  is raised the only effect is the query by id that read the payment: no request
  has gone to the gateway and the table is the same.
\<close>

theorem state_guard_of_cancel_and_refund:
  assumes "stored w pid = Some r"
  shows "((\<exists>st. fst (cancel_payment e pid w)
              = Inl (ValueError (Fmt ''Cannot cancel payment with status: {}'' [AStatus st])))
            \<longleftrightarrow> status r \<notin> {PENDING, PROCESSING}) \<and>
         (status r \<notin> {PENDING, PROCESSING} \<longrightarrow>
            cancel_payment e pid w
              = (Inl (ValueError (Fmt ''Cannot cancel payment with status: {}'' [AStatus (status r)])),
                 w\<lparr>trace := trace w @ [SelectById pid]\<rparr>)) \<and>
         ((\<exists>st. fst (refund_payment e pid amt w)
              = Inl (ValueError (Fmt ''Cannot refund payment with status: {}'' [AStatus st])))
            \<longleftrightarrow> status r \<noteq> SUCCESS) \<and>
         (status r \<noteq> SUCCESS \<longrightarrow>
            refund_payment e pid amt w
              = (Inl (ValueError (Fmt ''Cannot refund payment with status: {}'' [AStatus (status r)])),
                 w\<lparr>trace := trace w @ [SelectById pid]\<rparr>))"
proof -
  let ?w1 = "w\<lparr>trace := trace w @ [SelectById pid]\<rparr>"
  have rejected_cancel: "cancel_payment e pid w
      = (Inl (ValueError (Fmt ''Cannot cancel payment with status: {}'' [AStatus (status r)])), ?w1)"
    if "status r \<notin> {PENDING, PROCESSING}"
    using assms that
    by (auto simp: cancel_payment_def bind_def raise_def storage_get_payment_run)
  have rejected_refund: "refund_payment e pid amt w
      = (Inl (ValueError (Fmt ''Cannot refund payment with status: {}'' [AStatus (status r)])), ?w1)"
    if "status r \<noteq> SUCCESS"
    using assms that
    by (auto simp: refund_payment_def bind_def raise_def storage_get_payment_run)
  have permitted_cancel: "fst (cancel_payment e pid w)
      \<noteq> Inl (ValueError (Fmt ''Cannot cancel payment with status: {}'' [AStatus st]))"
    if "status r \<in> {PENDING, PROCESSING}" for st
  proof
    assume a: "fst (cancel_payment e pid w)
      = Inl (ValueError (Fmt ''Cannot cancel payment with status: {}'' [AStatus st]))"
    obtain w' where run: "cancel_payment e pid w
      = (Inl (ValueError (Fmt ''Cannot cancel payment with status: {}'' [AStatus st])), w')"
      using a by (cases "cancel_payment e pid w") auto
    have body: "bind (midtrans_cancel_payment e (order_id r)) (\<lambda>updated_payment.
             bind (update_payment_status e pid CANCELED) (\<lambda>_. storage_get_payment e pid)) ?w1
      = (Inl (ValueError (Fmt ''Cannot cancel payment with status: {}'' [AStatus st])), w')"
      using run assms that
      by (auto simp: cancel_payment_def storage_get_payment_run
          bind_def[of "storage_get_payment e pid"])
    from bind_error_cases[OF body] show False
    proof (elim disjE exE conjE)
      assume "midtrans_cancel_payment e (order_id r) ?w1
        = (Inl (ValueError (Fmt ''Cannot cancel payment with status: {}'' [AStatus st])), w')"
      from midtrans_cancel_payment_error[OF this] show False by auto
    next
      fix y w''
      assume "bind (update_payment_status e pid CANCELED) (\<lambda>_. storage_get_payment e pid) w''
        = (Inl (ValueError (Fmt ''Cannot cancel payment with status: {}'' [AStatus st])), w')"
      from bind_error_cases[OF this] show False
        by (auto dest: update_payment_status_error simp: storage_get_payment_run)
    qed
  qed
  have permitted_refund: "fst (refund_payment e pid amt w)
      \<noteq> Inl (ValueError (Fmt ''Cannot refund payment with status: {}'' [AStatus st]))"
    if "status r = SUCCESS" for st
  proof
    assume a: "fst (refund_payment e pid amt w)
      = Inl (ValueError (Fmt ''Cannot refund payment with status: {}'' [AStatus st]))"
    obtain w' where run: "refund_payment e pid amt w
      = (Inl (ValueError (Fmt ''Cannot refund payment with status: {}'' [AStatus st])), w')"
      using a by (cases "refund_payment e pid amt w") auto
    have body: "bind (midtrans_refund_payment e (order_id r) amt) (\<lambda>updated_payment.
             bind (update_payment_status e pid REFUNDED) (\<lambda>_. storage_get_payment e pid)) ?w1
      = (Inl (ValueError (Fmt ''Cannot refund payment with status: {}'' [AStatus st])), w')"
      using run assms that
      by (auto simp: refund_payment_def storage_get_payment_run
          bind_def[of "storage_get_payment e pid"])
    from bind_error_cases[OF body] show False
    proof (elim disjE exE conjE)
      assume "midtrans_refund_payment e (order_id r) amt ?w1
        = (Inl (ValueError (Fmt ''Cannot refund payment with status: {}'' [AStatus st])), w')"
      from midtrans_refund_payment_error[OF this] show False by auto
    next
      fix y w''
      assume "bind (update_payment_status e pid REFUNDED) (\<lambda>_. storage_get_payment e pid) w''
        = (Inl (ValueError (Fmt ''Cannot refund payment with status: {}'' [AStatus st])), w')"
      from bind_error_cases[OF this] show False
        by (auto dest: update_payment_status_error simp: storage_get_payment_run)
    qed
  qed
  show ?thesis
    using rejected_cancel rejected_refund permitted_cancel permitted_refund
    by (metis fst_conv)
qed

theorem state_guard_of_cancel_and_refund_witness:
  "stored (sample_world SUCCESS) ''payment-ORD-1'' = Some (sample_row SUCCESS) \<and>
   cancel_payment offline_env ''payment-ORD-1'' (sample_world SUCCESS)
     = (Inl (ValueError (Fmt ''Cannot cancel payment with status: {}'' [AStatus SUCCESS])),
        \<lparr>db = [sample_row SUCCESS], trace = [SelectById ''payment-ORD-1'']\<rparr>) \<and>
   stored (sample_world PENDING) ''payment-ORD-1'' = Some (sample_row PENDING) \<and>
   refund_payment offline_env ''payment-ORD-1'' None (sample_world PENDING)
     = (Inl (ValueError (Fmt ''Cannot refund payment with status: {}'' [AStatus PENDING])),
        \<lparr>db = [sample_row PENDING], trace = [SelectById ''payment-ORD-1'']\<rparr>) \<and>
   (\<nexists>st. fst (cancel_payment offline_env ''payment-ORD-1'' (sample_world PENDING))
      = Inl (ValueError (Fmt ''Cannot cancel payment with status: {}'' [AStatus st])))"
proof -
  have h1: "stored (sample_world SUCCESS) ''payment-ORD-1'' = Some (sample_row SUCCESS)"
    and h2: "stored (sample_world PENDING) ''payment-ORD-1'' = Some (sample_row PENDING)"
    by (rule sample_stored)+
  show ?thesis
    using h1 h2
      state_guard_of_cancel_and_refund [OF h1, of offline_env None]
      state_guard_of_cancel_and_refund [OF h2, of offline_env None]
    by (simp add: sample_world_def sample_row_def)
qed

section \<open>Webhook processing\<close>

text \<open>
  Claim C8. With \<^verbatim>\<open>verify_signature=True\<close>, when the hex digest of
  \<^verbatim>\<open>order_id + status_code + gross_amount + server_key\<close> is not the
  \<^verbatim>\<open>signature_key\<close> of the payload, or when computing the digest raises,
  \<^verbatim>\<open>process_webhook\<close> raises \<^verbatim>\<open>HTTPException(401, "Invalid signature")\<close> and
  the world is exactly as before: the table has not been queried, nothing has
  been committed and no status has changed. (A field missing from the payload
  does not make the computation raise: the f-string prints it as \<^verbatim>\<open>None\<close>.)
\<close>

theorem invalid_signature_is_unauthorized:
  assumes "map_option JStr (sha512_hexdigest e (signature_string e server_key d))
             \<noteq> Some (dict_get d ''signature_key'')"
  shows "process_webhook e server_key d True w
           = (Inl (HTTPException 401 (Fmt ''Invalid signature'' [])), w)"
proof -
  have "\<not> verify_signature e server_key d"
    using assms by (auto simp: verify_signature_def split: option.splits)
  then show ?thesis
    by (simp add: process_webhook_def try_except_def raise_def)
qed

theorem invalid_signature_is_unauthorized_witness:
  "sha512_hexdigest offline_env
      (signature_string offline_env ''secret''
         ((''signature_key'', JStr ''forged'') # sample_notification ''settlement''))
     = Some ''digest:ORD-1200100000.00secret'' \<and>
   dict_get ((''signature_key'', JStr ''forged'') # sample_notification ''settlement'')
      ''signature_key'' = JStr ''forged'' \<and>
   process_webhook offline_env ''secret''
       ((''signature_key'', JStr ''forged'') # sample_notification ''settlement'') True
       (sample_world PENDING)
     = (Inl (HTTPException 401 (Fmt ''Invalid signature'' [])), sample_world PENDING) \<and>
   sha512_hexdigest (offline_env\<lparr>sha512_hexdigest := (\<lambda>s. None)\<rparr>)
      (signature_string (offline_env\<lparr>sha512_hexdigest := (\<lambda>s. None)\<rparr>) ''secret''
         (sample_notification ''settlement'')) = None \<and>
   process_webhook (offline_env\<lparr>sha512_hexdigest := (\<lambda>s. None)\<rparr>) ''secret''
       (sample_notification ''settlement'') True (sample_world PENDING)
     = (Inl (HTTPException 401 (Fmt ''Invalid signature'' [])), sample_world PENDING)"
proof -
  let ?d = "(''signature_key'', JStr ''forged'') # sample_notification ''settlement''"
  let ?e = "offline_env\<lparr>sha512_hexdigest := (\<lambda>s. None)\<rparr>"
  have d1: "sha512_hexdigest offline_env (signature_string offline_env ''secret'' ?d)
              = Some ''digest:ORD-1200100000.00secret''"
    by (simp add: offline_env_def signature_string_def sample_notification_def
        dict_get_def dict_get_default_def format_field_def)
  have d2: "dict_get ?d ''signature_key'' = JStr ''forged''"
    by (simp add: dict_get_def dict_get_default_def)
  have h1: "map_option JStr (sha512_hexdigest offline_env (signature_string offline_env ''secret'' ?d))
              \<noteq> Some (dict_get ?d ''signature_key'')"
    by (simp add: d1 d2)
  have h2: "map_option JStr
              (sha512_hexdigest ?e (signature_string ?e ''secret'' (sample_notification ''settlement'')))
              \<noteq> Some (dict_get (sample_notification ''settlement'') ''signature_key'')"
    by simp
  show ?thesis
    using d1 d2 invalid_signature_is_unauthorized [OF h1, of "sample_world PENDING"]
      invalid_signature_is_unauthorized [OF h2, of "sample_world PENDING"]
    by simp
qed

lemma valid_signature_sample:
  "verify_signature offline_env ''secret'' (sample_notification ts)"
  by (simp add: verify_signature_def signature_string_def sample_notification_def offline_env_def
     dict_get_def dict_get_default_def format_field_def)

section \<open>Notifications applied twice\<close>

lemma update_first_distinct:
  assumes "distinct (map key xs)"
  shows "update_first (\<lambda>x. key x = k) f xs = map (\<lambda>x. if key x = k then f x else x) xs"
  using assms
proof (induction xs)
  case Nil
  then show ?case by simp
next
  case (Cons x xs)
  show ?case
  proof (cases "key x = k")
    case True
    with Cons.prems have "\<forall>y\<in>set xs. key y \<noteq> k" by (auto simp: image_iff)
    then have "map (\<lambda>x. if key x = k then f x else x) xs = xs"
      by (induction xs) auto
    with True show ?thesis by simp
  next
    case False
    with Cons show ?thesis by simp
  qed
qed

lemma insort_key_map:
  assumes "\<And>x. k (g x) = k x"
  shows "insort_key k (g x) (map g ys) = map g (insort_key k x ys)"
  by (induction ys) (simp_all add: assms)

lemma sort_key_map:
  assumes "\<And>x. k (g x) = k x"
  shows "sort_key k (map g xs) = map g (sort_key k xs)"
proof (induction xs)
  case Nil
  show ?case by simp
next
  case (Cons x xs)
  have "insort_key k (g x) (map g (sort_key k xs)) = map g (insort_key k x (sort_key k xs))"
    using assms by (rule insort_key_map)
  with Cons show ?case by simp
qed

lemma filter_map_preserved:
  assumes "\<And>x. P (g x) = P x"
  shows "filter P (map g xs) = map g (filter P xs)"
  by (induction xs) (simp_all add: assms)

text \<open>The rows of an order as the storage port lists them, newest first.\<close>

lemma rows_after_status_update:
  assumes "primary_key w"
  shows "sort_key (\<lambda>r. - created_at r) (filter (\<lambda>r. order_id r = oid)
           (update_first (\<lambda>r. payment_id r = pid) (\<lambda>r. r\<lparr>status := st, updated_at := u\<rparr>) (db w)))
         = map (\<lambda>r. if payment_id r = pid then r\<lparr>status := st, updated_at := u\<rparr> else r)
             (sort_key (\<lambda>r. - created_at r) (filter (\<lambda>r. order_id r = oid) (db w)))"
proof -
  let ?g = "\<lambda>r. if payment_id r = pid then r\<lparr>status := st, updated_at := u\<rparr> else r"
  have "update_first (\<lambda>r. payment_id r = pid) (\<lambda>r. r\<lparr>status := st, updated_at := u\<rparr>) (db w)
          = map ?g (db w)"
    using assms unfolding primary_key_def by (rule update_first_distinct)
  moreover have "filter (\<lambda>r. order_id r = oid) (map ?g (db w))
                   = map ?g (filter (\<lambda>r. order_id r = oid) (db w))"
    by (rule filter_map_preserved) simp
  moreover have "sort_key (\<lambda>r. - created_at r) (map ?g xs) = map ?g (sort_key (\<lambda>r. - created_at r) xs)" for xs
    by (rule sort_key_map) simp
  ultimately show ?thesis by simp
qed

lemma primary_key_after_update:
  "primary_key w \<Longrightarrow>
   primary_key (w\<lparr>db := update_first (\<lambda>r. payment_id r = pid)
                          (\<lambda>r. r\<lparr>status := st, updated_at := u\<rparr>) (db w), trace := t\<rparr>)"
  unfolding primary_key_def
  by (simp add: update_first_distinct comp_def if_distrib[of payment_id] cong: if_cong)

lemma sorted_rows_stored:
  assumes "sort_key (\<lambda>r. - created_at r) (filter (\<lambda>r. order_id r = oid) (db w)) = r # rs"
    and "primary_key w"
  shows "stored w (payment_id r) = Some r"
proof -
  have "r \<in> set (sort_key (\<lambda>r. - created_at r) (filter (\<lambda>r. order_id r = oid) (db w)))"
    using assms(1) by simp
  then have mem: "r \<in> set (db w)" by simp
  have "distinct (map payment_id xs) \<Longrightarrow> r \<in> set xs \<Longrightarrow>
          find (\<lambda>x. payment_id x = payment_id r) xs = Some r" for xs
    by (induction xs) (auto simp: rev_image_eqI)
  then show ?thesis
    using assms(2) mem unfolding stored_def primary_key_def by blast
qed

lemma commits_simps [simp]:
  "commits [] = 0"
  "commits (SelectByOrder oid # t) = commits t"
  "commits (SelectById pid # t) = commits t"
  "commits (GatewayCall rq # t) = commits t"
  "commits (Commit pid # t) = Suc (commits t)"
  "commits (t @ u) = commits t + commits u"
  by (simp_all add: commits_def)

text \<open>
  The active payment of an order is updated to the notified status at most once;
  afterwards the order's newest row is the same payment and carries that status.
\<close>

lemma head_update:
  assumes pk: "primary_key w"
    and rows: "sort_key (\<lambda>r. - created_at r) (filter (\<lambda>r. order_id r = oid) (db w)) = r # rs"
  shows "\<exists>w1. update_if_changed e (payment_record_to_response e r) st
                  (w\<lparr>trace := trace w @ [SelectByOrder oid]\<rparr>) = (Inr (), w1) \<and>
              primary_key w1 \<and>
              commits (trace w1) \<le> commits (trace w) + 1 \<and>
              (status r \<noteq> st \<longrightarrow>
                 commits (trace w1) = commits (trace w) + 1 \<and>
                 stored w1 (payment_id r) = Some (r\<lparr>status := st, updated_at := utcnow e\<rparr>)) \<and>
              (\<exists>r' rs'. sort_key (\<lambda>r. - created_at r) (filter (\<lambda>r. order_id r = oid) (db w1))
                          = r' # rs' \<and> status r' = st \<and> payment_id r' = payment_id r)"
proof (cases "status r = st")
  case True
  then show ?thesis
    using pk rows by (simp add: update_if_changed_def ret_def primary_key_def)
next
  case False
  have st: "stored w (payment_id r) = Some r"
    using rows pk by (rule sorted_rows_stored)
  let ?w1 = "w\<lparr>db := update_first (\<lambda>x. payment_id x = payment_id r)
                        (\<lambda>x. x\<lparr>status := st, updated_at := utcnow e\<rparr>) (db w),
                trace := trace w @ [SelectByOrder oid, SelectById (payment_id r), Commit (payment_id r)]\<rparr>"
  have run: "update_if_changed e (payment_record_to_response e r) st
               (w\<lparr>trace := trace w @ [SelectByOrder oid]\<rparr>) = (Inr (), ?w1)"
    using False st by (simp add: update_if_changed_def update_payment_status_run)
  have pk1: "primary_key ?w1"
    using pk by (rule primary_key_after_update)
  have rows1: "sort_key (\<lambda>r. - created_at r) (filter (\<lambda>r. order_id r = oid) (db ?w1))
                 = r\<lparr>status := st, updated_at := utcnow e\<rparr>
                   # map (\<lambda>x. if payment_id x = payment_id r
                                then x\<lparr>status := st, updated_at := utcnow e\<rparr> else x) rs"
    using rows_after_status_update[OF pk] rows by simp
  have st1: "stored ?w1 (payment_id r) = Some (r\<lparr>status := st, updated_at := utcnow e\<rparr>)"
    using st by (simp add: stored_def find_update_first)
  show ?thesis
    using run pk1 rows1 st1 by (intro exI[of _ ?w1]) simp
qed

lemma update_if_changed_same:
  "p_status p = st \<Longrightarrow> update_if_changed e p st w = (Inr (), w)"
  by (simp add: update_if_changed_def ret_def)

lemma verify_signature_clock [simp]:
  "verify_signature (e\<lparr>now := n, utcnow := u\<rparr>) k d = verify_signature e k d"
  by (simp add: verify_signature_def signature_string_def format_field_def cong: json.case_cong)

lemma validate_clock [simp]:
  "validate_str (e\<lparr>now := n, utcnow := u\<rparr>) v = validate_str e v"
  "validate_opt_str (e\<lparr>now := n, utcnow := u\<rparr>) v = validate_opt_str e v"
  by (simp_all add: validate_str_def validate_opt_str_def cong: json.case_cong)

lemma parse_notification_clock [simp]:
  "parse_notification (e\<lparr>now := n, utcnow := u\<rparr>) d = parse_notification e d"
  by (simp add: parse_notification_def cong: option.case_cong sum.case_cong)

lemma process_webhook_run:
  "process_webhook e key d v w =
     (if v \<and> \<not> verify_signature e key d
      then (Inl (HTTPException 401 (Fmt ''Invalid signature'' [])), w)
      else (case parse_notification e d of
              Inl x \<Rightarrow> (Inl (as_http x), w)
            | Inr n \<Rightarrow>
                (case sort_key (\<lambda>r. - created_at r)
                        (filter (\<lambda>r. order_id r = wh_order_id n) (db w)) of
                   [] \<Rightarrow> (Inr warning_result, w\<lparr>trace := trace w @ [SelectByOrder (wh_order_id n)]\<rparr>)
                 | r # rs \<Rightarrow>
                     (case update_if_changed e (payment_record_to_response e r)
                             (map_status_to_payment_status (wh_transaction_status n)
                                (wh_fraud_status n))
                             (w\<lparr>trace := trace w @ [SelectByOrder (wh_order_id n)]\<rparr>) of
                        (Inl x, w1) \<Rightarrow> (Inl (as_http x), w1)
                      | (Inr u, w1) \<Rightarrow>
                          (Inr (success_result (payment_record_to_response e r)
                                  (map_status_to_payment_status (wh_transaction_status n)
                                     (wh_fraud_status n))), w1)))))"
  by (auto simp: process_webhook_def try_except_def bind_def lift_def ret_def raise_def Let_def
      get_payments_by_order_run as_http_def
      split: sum.splits list.splits prod.splits exn.splits)

lemma webhook_twice:
  assumes pk: "primary_key w"
  shows "(let first = process_webhook e key d v w;
              second = process_webhook (e\<lparr>now := n', utcnow := u'\<rparr>) key d v (snd first)
          in db (snd second) = db (snd first) \<and>
             commits (trace (snd second)) = commits (trace (snd first)) \<and>
             commits (trace (snd first)) \<le> commits (trace w) + 1 \<and>
             isl (fst second) = isl (fst first) \<and>
             (\<forall>n r. (v \<longrightarrow> verify_signature e key d) \<longrightarrow>
                    parse_notification e d = Inr n \<longrightarrow>
                    active_row w (wh_order_id n) = Some r \<longrightarrow>
                    status r \<noteq> map_status_to_payment_status (wh_transaction_status n)
                                 (wh_fraud_status n) \<longrightarrow>
                    \<not> isl (fst first) \<and>
                    commits (trace (snd first)) = commits (trace w) + 1 \<and>
                    stored (snd first) (payment_id r)
                      = Some (r\<lparr>status := map_status_to_payment_status (wh_transaction_status n)
                                               (wh_fraud_status n),
                               updated_at := utcnow e\<rparr>)))"
proof (cases "v \<and> \<not> verify_signature e key d")
  case True
  then show ?thesis
    by (simp add: process_webhook_run Let_def)
next
  case False
  then have verified: "(v \<and> \<not> verify_signature e key d) = False" by simp
  show ?thesis
  proof (cases "parse_notification e d")
    case (Inl x)
    then show ?thesis
      by (simp add: process_webhook_run verified Let_def)
  next
    case (Inr n)
    let ?oid = "wh_order_id n"
    let ?st = "map_status_to_payment_status (wh_transaction_status n) (wh_fraud_status n)"
    let ?e' = "e\<lparr>now := n', utcnow := u'\<rparr>"
    show ?thesis
    proof (cases "sort_key (\<lambda>r. - created_at r) (filter (\<lambda>r. order_id r = ?oid) (db w))")
      case Nil
      then show ?thesis
        by (simp add: process_webhook_run verified Inr Let_def active_row_def)
    next
      case (Cons r rs)
      from head_update[OF pk Cons, of e ?st] obtain w1 r' rs' where
        up: "update_if_changed e (payment_record_to_response e r) ?st
               (w\<lparr>trace := trace w @ [SelectByOrder ?oid]\<rparr>) = (Inr (), w1)"
        and c1: "commits (trace w1) \<le> commits (trace w) + 1"
        and c2: "status r \<noteq> ?st \<longrightarrow>
                 commits (trace w1) = commits (trace w) + 1 \<and>
                 stored w1 (payment_id r) = Some (r\<lparr>status := ?st, updated_at := utcnow e\<rparr>)"
        and rows1: "sort_key (\<lambda>r. - created_at r) (filter (\<lambda>r. order_id r = ?oid) (db w1)) = r' # rs'"
        and st1: "status r' = ?st"
        by blast
      have first: "process_webhook e key d v w
                     = (Inr (success_result (payment_record_to_response e r) ?st), w1)"
        by (simp add: process_webhook_run verified Inr Cons up)
      have second: "process_webhook ?e' key d v w1
                     = (Inr (success_result (payment_record_to_response ?e' r') ?st),
                        w1\<lparr>trace := trace w1 @ [SelectByOrder ?oid]\<rparr>)"
        by (simp add: process_webhook_run verified Inr rows1 st1 update_if_changed_same)
      show ?thesis
        using c1 c2 Cons Inr by (simp add: first second Let_def active_row_def)
    qed
  qed
qed

lemma to_float_clock [simp]: "to_float (e\<lparr>now := n, utcnow := u\<rparr>) v = to_float e v"
  by (simp add: to_float_def)

lemma normalize_notification_clock:
  "normalize_notification (e\<lparr>now := n, utcnow := u\<rparr>) d
     = map_sum id (\<lambda>x. x\<lparr>nt_processed_at := n\<rparr>) (normalize_notification e d)"
  by (simp add: normalize_notification_def split: sum.splits)

lemma handle_notification_run:
  "handle_notification e d w =
     (case normalize_notification e d of
        Inl x \<Rightarrow>
          (Inl (as_value_error (ValueError (Fmt ''Failed to process notification: {}'' [AExn x]))), w)
      | Inr n \<Rightarrow>
          (case sort_key (\<lambda>r. - created_at r)
                  (filter (\<lambda>r. order_id r = nt_order_id n) (db w)) of
             [] \<Rightarrow> (Inr n, w\<lparr>trace := trace w @ [SelectByOrder (nt_order_id n)]\<rparr>)
           | r # rs \<Rightarrow>
               (case update_if_changed e (payment_record_to_response e r) (nt_status n)
                       (w\<lparr>trace := trace w @ [SelectByOrder (nt_order_id n)]\<rparr>) of
                  (Inl x, w1) \<Rightarrow> (Inl (as_value_error x), w1)
                | (Inr u, w1) \<Rightarrow> (Inr n, w1))))"
  by (auto simp: handle_notification_def midtrans_handle_notification_def try_except_def bind_def
      ret_def raise_def get_payments_by_order_run as_value_error_def
      split: sum.splits list.splits prod.splits)

lemma notify_twice:
  assumes pk: "primary_key w"
  shows "(let first = handle_notification e d w;
              second = handle_notification (e\<lparr>now := n', utcnow := u'\<rparr>) d (snd first)
          in db (snd second) = db (snd first) \<and>
             commits (trace (snd second)) = commits (trace (snd first)) \<and>
             commits (trace (snd first)) \<le> commits (trace w) + 1 \<and>
             isl (fst second) = isl (fst first) \<and>
             (\<forall>n r. normalize_notification e d = Inr n \<longrightarrow>
                    active_row w (nt_order_id n) = Some r \<longrightarrow>
                    status r \<noteq> nt_status n \<longrightarrow>
                    \<not> isl (fst first) \<and>
                    commits (trace (snd first)) = commits (trace w) + 1 \<and>
                    stored (snd first) (payment_id r)
                      = Some (r\<lparr>status := nt_status n, updated_at := utcnow e\<rparr>)))"
proof (cases "normalize_notification e d")
  case (Inl x)
  then show ?thesis
    by (simp add: handle_notification_run normalize_notification_clock Let_def)
next
  case (Inr n)
  let ?oid = "nt_order_id n"
  let ?e' = "e\<lparr>now := n', utcnow := u'\<rparr>"
  have Inr': "normalize_notification ?e' d = Inr (n\<lparr>nt_processed_at := n'\<rparr>)"
    by (simp add: normalize_notification_clock Inr)
  show ?thesis
  proof (cases "sort_key (\<lambda>r. - created_at r) (filter (\<lambda>r. order_id r = ?oid) (db w))")
    case Nil
    then show ?thesis
      by (simp add: handle_notification_run Inr Inr' Let_def active_row_def)
  next
    case (Cons r rs)
    from head_update[OF pk Cons, of e "nt_status n"] obtain w1 r' rs' where
      up: "update_if_changed e (payment_record_to_response e r) (nt_status n)
             (w\<lparr>trace := trace w @ [SelectByOrder ?oid]\<rparr>) = (Inr (), w1)"
      and c1: "commits (trace w1) \<le> commits (trace w) + 1"
      and c2: "status r \<noteq> nt_status n \<longrightarrow>
               commits (trace w1) = commits (trace w) + 1 \<and>
               stored w1 (payment_id r) = Some (r\<lparr>status := nt_status n, updated_at := utcnow e\<rparr>)"
      and rows1: "sort_key (\<lambda>r. - created_at r) (filter (\<lambda>r. order_id r = ?oid) (db w1)) = r' # rs'"
      and st1: "status r' = nt_status n"
      by blast
    have first: "handle_notification e d w = (Inr n, w1)"
      by (simp add: handle_notification_run Inr Cons up)
    have second: "handle_notification ?e' d w1
                   = (Inr (n\<lparr>nt_processed_at := n'\<rparr>), w1\<lparr>trace := trace w1 @ [SelectByOrder ?oid]\<rparr>)"
      by (simp add: handle_notification_run Inr' rows1 st1 update_if_changed_same)
    show ?thesis
      using c1 c2 Cons Inr by (simp add: first second Let_def active_row_def)
  qed
qed

lemma sample_parse:
  "parse_notification e (sample_notification ts)
     = Inr \<lparr> wh_transaction_id = ''T-1'', wh_order_id = ''ORD-1'', wh_transaction_status = ts,
             wh_gross_amount = ''100000.00'', wh_payment_type = ''qris'', wh_fraud_status = None,
             wh_signature_key = Some ''digest:ORD-1200100000.00secret'',
             wh_transaction_time = None \<rparr>"
  by (simp add: parse_notification_def sample_notification_def required_fields_def
      validate_str_def validate_opt_str_def dict_get_def dict_get_default_def)

lemma sample_verify: "verify_signature offline_env ''secret'' (sample_notification ts)"
  by (simp add: verify_signature_def signature_string_def sample_notification_def offline_env_def
     dict_get_def dict_get_default_def format_field_def)

lemma offline_env_clock: "now offline_env = 100" "utcnow offline_env = 200"
  by (simp_all add: offline_env_def)

lemma sample_webhook_expire:
  "process_webhook offline_env ''secret'' (sample_notification ''expire'') True (sample_world PENDING)
     = (Inr (success_result (payment_record_to_response offline_env (sample_row PENDING)) EXPIRED),
        \<lparr>db = [(sample_row PENDING)\<lparr>status := EXPIRED, updated_at := 200\<rparr>],
         trace = [SelectByOrder ''ORD-1'', SelectById ''payment-ORD-1'', Commit ''payment-ORD-1'']\<rparr>)"
  by (simp add: process_webhook_run sample_verify sample_parse update_if_changed_def
      update_payment_status_run stored_def map_status_to_payment_status_def status_mapping_def
      lower_def lower_char_def sample_world_def sample_row_def offline_env_clock)

text \<open>
  Claim C9. On a table that satisfies its primary key, applying the same
  notification a second time (at a later time) changes nothing: the table after
  the second application is the table after the first, the second application
  commits nothing, and it ends with an error only if the first did. The first
  application commits at most once; when the notification is accepted and the
  active payment of its order has a status other than the notified one, it
  commits exactly once, and that payment then carries the notified status and
  the \<^verbatim>\<open>updated_at\<close> of that moment. This holds for
  \<^verbatim>\<open>WebhookHandler.process_webhook\<close> and for
  \<^verbatim>\<open>PaymentService.handle_notification\<close>.
\<close>

theorem notification_is_idempotent:
  assumes "primary_key w"
  shows "(let first = process_webhook e key d v w;
              second = process_webhook (e\<lparr>now := n', utcnow := u'\<rparr>) key d v (snd first)
          in db (snd second) = db (snd first) \<and>
             commits (trace (snd second)) = commits (trace (snd first)) \<and>
             commits (trace (snd first)) \<le> commits (trace w) + 1 \<and>
             isl (fst second) = isl (fst first) \<and>
             (\<forall>n r. (v \<longrightarrow> verify_signature e key d) \<longrightarrow>
                    parse_notification e d = Inr n \<longrightarrow>
                    active_row w (wh_order_id n) = Some r \<longrightarrow>
                    status r \<noteq> map_status_to_payment_status (wh_transaction_status n)
                                 (wh_fraud_status n) \<longrightarrow>
                    \<not> isl (fst first) \<and>
                    commits (trace (snd first)) = commits (trace w) + 1 \<and>
                    stored (snd first) (payment_id r)
                      = Some (r\<lparr>status := map_status_to_payment_status (wh_transaction_status n)
                                               (wh_fraud_status n),
                               updated_at := utcnow e\<rparr>))) \<and>
         (let first = handle_notification e d w;
              second = handle_notification (e\<lparr>now := n', utcnow := u'\<rparr>) d (snd first)
          in db (snd second) = db (snd first) \<and>
             commits (trace (snd second)) = commits (trace (snd first)) \<and>
             commits (trace (snd first)) \<le> commits (trace w) + 1 \<and>
             isl (fst second) = isl (fst first) \<and>
             (\<forall>n r. normalize_notification e d = Inr n \<longrightarrow>
                    active_row w (nt_order_id n) = Some r \<longrightarrow>
                    status r \<noteq> nt_status n \<longrightarrow>
                    \<not> isl (fst first) \<and>
                    commits (trace (snd first)) = commits (trace w) + 1 \<and>
                    stored (snd first) (payment_id r)
                      = Some (r\<lparr>status := nt_status n, updated_at := utcnow e\<rparr>)))"
  using webhook_twice[OF assms] notify_twice[OF assms] by blast

theorem notification_is_idempotent_witness:
  "primary_key (sample_world PENDING) \<and>
   snd (process_webhook offline_env ''secret'' (sample_notification ''expire'') True
          (sample_world PENDING))
     = \<lparr>db = [(sample_row PENDING)\<lparr>status := EXPIRED, updated_at := 200\<rparr>],
        trace = [SelectByOrder ''ORD-1'', SelectById ''payment-ORD-1'', Commit ''payment-ORD-1'']\<rparr> \<and>
   db (snd (process_webhook (offline_env\<lparr>now := 300, utcnow := 400\<rparr>) ''secret''
              (sample_notification ''expire'') True
              \<lparr>db = [(sample_row PENDING)\<lparr>status := EXPIRED, updated_at := 200\<rparr>],
               trace = [SelectByOrder ''ORD-1'', SelectById ''payment-ORD-1'',
                        Commit ''payment-ORD-1'']\<rparr>))
     = [(sample_row PENDING)\<lparr>status := EXPIRED, updated_at := 200\<rparr>] \<and>
   commits (trace (snd (process_webhook (offline_env\<lparr>now := 300, utcnow := 400\<rparr>) ''secret''
              (sample_notification ''expire'') True
              \<lparr>db = [(sample_row PENDING)\<lparr>status := EXPIRED, updated_at := 200\<rparr>],
               trace = [SelectByOrder ''ORD-1'', SelectById ''payment-ORD-1'',
                        Commit ''payment-ORD-1'']\<rparr>))) = 1 \<and>
   \<not> isl (fst (process_webhook (offline_env\<lparr>now := 300, utcnow := 400\<rparr>) ''secret''
              (sample_notification ''expire'') True
              \<lparr>db = [(sample_row PENDING)\<lparr>status := EXPIRED, updated_at := 200\<rparr>],
               trace = [SelectByOrder ''ORD-1'', SelectById ''payment-ORD-1'',
                        Commit ''payment-ORD-1'']\<rparr>))"
proof -
  have h: "primary_key (sample_world PENDING)"
    by (simp add: primary_key_def sample_world_def)
  show ?thesis
    using h notification_is_idempotent [OF h, where e = offline_env and key = "''secret''"
        and d = "sample_notification ''expire''" and v = True and n' = 300 and u' = 400]
    by (simp add: Let_def sample_webhook_expire)
qed

section \<open>Steps that make a payment REFUNDED\<close>

lemma bind_db:
  assumes "\<And>w. db (snd (m w)) = db w" and "\<And>x w. db (snd (f x w)) = db w"
  shows "db (snd (bind m f w)) = db w"
proof (cases "m w")
  case (Pair r w')
  have "db w' = db w" using assms(1)[of w] Pair by simp
  then show ?thesis
    using Pair assms(2) by (cases r) (simp_all add: bind_def)
qed

lemma try_except_db:
  assumes "\<And>w. db (snd (m w)) = db w" and "\<And>x w. db (snd (h x w)) = db w"
  shows "db (snd (try_except m h w)) = db w"
proof (cases "m w")
  case (Pair r w')
  have "db w' = db w" using assms(1)[of w] Pair by simp
  then show ?thesis
    using Pair assms(2) by (cases r) (simp_all add: try_except_def)
qed

lemma prim_db [simp]:
  "db (snd (ret x w)) = db w"
  "db (snd (raise x' w)) = db w"
  "db (snd (emit ev w)) = db w"
  "db (snd (lift r w)) = db w"
  "db (snd (http e rq w)) = db w"
  by (simp_all add: io_defs split: sum.splits)

lemma midtrans_cancel_payment_db [simp]: "db (snd (midtrans_cancel_payment e tid w)) = db w"
  unfolding midtrans_cancel_payment_def except_request_exception_def
  by (intro try_except_db bind_db) (simp_all split: if_splits)

lemma midtrans_refund_payment_db [simp]: "db (snd (midtrans_refund_payment e tid a w)) = db w"
  unfolding midtrans_refund_payment_def except_request_exception_def
  by (intro try_except_db bind_db) (auto split: if_splits option.splits intro!: bind_db)


lemma find_update_first_other:
  assumes "\<And>x. Q (f x) = Q x" and "\<And>x. P x \<Longrightarrow> \<not> Q x"
  shows "find Q (update_first P f xs) = find Q xs"
  by (induction xs) (auto simp: assms)

lemma stored_status_trace [simp]: "stored_status (w\<lparr>trace := t\<rparr>) pid = stored_status w pid"
  by (simp add: stored_status_def)

lemma stored_status_stored: "stored_status w pid = map_option status (stored w pid)"
  by (simp add: stored_status_def stored_def)

lemma update_payment_status_stored:
  "stored_status (snd (update_payment_status e p st w)) pid
     = (if pid = p then map_option (\<lambda>_. st) (stored_status w pid) else stored_status w pid)"
proof (cases "stored w p")
  case None
  then show ?thesis
    by (auto simp: update_payment_status_run stored_status_stored)
next
  case (Some r)
  show ?thesis
  proof (cases "pid = p")
    case True
    with Some show ?thesis
      by (simp add: update_payment_status_run stored_status_def find_update_first
          option.map_comp comp_def)
  next
    case False
    have "find (\<lambda>r. payment_id r = pid)
            (update_first (\<lambda>r. payment_id r = p)
               (\<lambda>r. r\<lparr>status := st, updated_at := utcnow e\<rparr>) (db w))
          = find (\<lambda>r. payment_id r = pid) (db w)"
      by (rule find_update_first_other) (use False in auto)
    with Some False show ?thesis
      by (simp add: update_payment_status_run stored_status_def)
  qed
qed

lemma stored_status_db:
  "db w' = db w \<Longrightarrow> stored_status w' pid = stored_status w pid"
  by (simp add: stored_status_def)

lemma get_payment_stored:
  "stored_status (snd (get_payment e p w)) pid
     = (case stored w p of
          None \<Rightarrow> stored_status w pid
        | Some r \<Rightarrow>
            if pid = p \<and> status r \<in> {PENDING, PROCESSING}
               \<and> status_of_response (gateway e (GetStatus (order_id r))) \<noteq> status r
            then Some (status_of_response (gateway e (GetStatus (order_id r))))
            else stored_status w pid)"
proof (cases "stored w p")
  case None
  then show ?thesis
    by (simp add: get_payment_def bind_def try_except_def ret_def storage_get_payment_run)
next
  case (Some r)
  have pid: "payment_id r = p" using Some by (rule stored_payment_id)
  have upd: "stored_status (snd (update_payment_status e p st w')) pid
               = (if pid = p then map_option (\<lambda>_. st) (stored_status w' pid)
                  else stored_status w' pid)" for st w'
    by (rule update_payment_status_stored)
  show ?thesis
    using Some pid upd[of _ "w\<lparr>trace := trace w @ [SelectById p, GatewayCall (GetStatus (order_id r))]\<rparr>"]
    by (auto simp: get_payment_def bind_def try_except_def ret_def storage_get_payment_run
        midtrans_get_payment_status_run update_payment_status_run stored_status_stored)
qed


lemma get_payment_status_stored:
  "stored_status (snd (get_payment_status e p w)) pid
     = (case stored w p of
          None \<Rightarrow> stored_status w pid
        | Some r \<Rightarrow>
            if pid = p \<and> status_of_response (gateway e (GetStatus (order_id r))) \<noteq> status r
            then Some (status_of_response (gateway e (GetStatus (order_id r))))
            else stored_status w pid)"
proof (cases "stored w p")
  case None
  then show ?thesis
    by (simp add: get_payment_status_def bind_def raise_def storage_get_payment_run)
next
  case (Some r)
  have pid: "payment_id r = p" using Some by (rule stored_payment_id)
  show ?thesis
    using Some pid
      update_payment_status_stored[of e p _
        "w\<lparr>trace := trace w @ [SelectById p, GatewayCall (GetStatus (order_id r))]\<rparr>" pid]
    by (auto simp: get_payment_status_def bind_def try_except_def ret_def storage_get_payment_run
        midtrans_get_payment_status_run update_payment_status_run stored_status_stored)
qed

text \<open>After the gateway call, cancel and refund write one fixed status to the payment.\<close>

lemma write_after_gateway:
  assumes "\<And>w. db (snd (m w)) = db w"
  shows "stored_status
           (snd (bind m (\<lambda>updated_payment.
                   bind (update_payment_status e p st) (\<lambda>_. storage_get_payment e p)) w)) pid
         = stored_status w pid
       \<or> (pid = p \<and>
          stored_status
            (snd (bind m (\<lambda>updated_payment.
                    bind (update_payment_status e p st) (\<lambda>_. storage_get_payment e p)) w)) pid
          = Some st)"
proof (cases "m w")
  case (Pair r w')
  have "db w' = db w"
    using assms[of w] Pair by simp
  then have same: "stored_status w' pid = stored_status w pid"
    by (rule stored_status_db)
  show ?thesis
  proof (cases r)
    case (Inl x)
    with Pair same show ?thesis by (simp add: bind_def)
  next
    case (Inr y)
    let ?F = "\<lambda>updated_payment. bind (update_payment_status e p st) (\<lambda>_. storage_get_payment e p)"
    have run: "bind m ?F w = ?F y w'"
      by (simp add: bind_def[of m] Pair Inr)
    have "stored_status (snd (?F y w')) pid
            = stored_status (snd (update_payment_status e p st w')) pid"
      by (cases "update_payment_status e p st w'")
         (auto simp: bind_def storage_get_payment_run split: sum.splits)
    also have "\<dots> = (if pid = p then map_option (\<lambda>_. st) (stored_status w pid)
                      else stored_status w pid)"
      using same by (auto simp: update_payment_status_stored)
    finally have val: "stored_status (snd (bind m ?F w)) pid
            = (if pid = p then map_option (\<lambda>_. st) (stored_status w pid)
               else stored_status w pid)"
      by (simp only: run)
    show ?thesis
      unfolding val by (cases "stored_status w pid") auto
  qed
qed

lemma cancel_payment_stored:
  "stored_status (snd (cancel_payment e p w)) pid = stored_status w pid
   \<or> stored_status (snd (cancel_payment e p w)) pid = Some CANCELED"
proof (cases "stored w p")
  case None
  then show ?thesis
    by (simp add: cancel_payment_def bind_def raise_def storage_get_payment_run)
next
  case (Some r)
  show ?thesis
  proof (cases "status r \<in> {PENDING, PROCESSING}")
    case False
    with Some show ?thesis
      by (simp add: cancel_payment_def bind_def raise_def storage_get_payment_run)
  next
    case True
    have run: "cancel_payment e p w
      = bind (midtrans_cancel_payment e (order_id r)) (\<lambda>updated_payment.
          bind (update_payment_status e p CANCELED) (\<lambda>_. storage_get_payment e p))
          (w\<lparr>trace := trace w @ [SelectById p]\<rparr>)"
      using Some True
      by (auto simp: cancel_payment_def storage_get_payment_run
          bind_def[of "storage_get_payment e p"])
    show ?thesis
      unfolding run
      using write_after_gateway[of "midtrans_cancel_payment e (order_id r)" e p CANCELED
          "w\<lparr>trace := trace w @ [SelectById p]\<rparr>" pid]
      by auto
  qed
qed

lemma refund_payment_stored:
  "stored_status (snd (refund_payment e p a w)) pid = stored_status w pid
   \<or> (pid = p \<and> stored_status w p = Some SUCCESS
      \<and> stored_status (snd (refund_payment e p a w)) pid = Some REFUNDED)"
proof (cases "stored w p")
  case None
  then show ?thesis
    by (simp add: refund_payment_def bind_def raise_def storage_get_payment_run)
next
  case (Some r)
  show ?thesis
  proof (cases "status r = SUCCESS")
    case False
    with Some show ?thesis
      by (simp add: refund_payment_def bind_def raise_def storage_get_payment_run)
  next
    case True
    have run: "refund_payment e p a w
      = bind (midtrans_refund_payment e (order_id r) a) (\<lambda>updated_payment.
          bind (update_payment_status e p REFUNDED) (\<lambda>_. storage_get_payment e p))
          (w\<lparr>trace := trace w @ [SelectById p]\<rparr>)"
      using Some True
      by (auto simp: refund_payment_def storage_get_payment_run
          bind_def[of "storage_get_payment e p"])
    have before: "stored_status w p = Some SUCCESS"
      using Some True by (simp add: stored_status_stored)
    show ?thesis
      unfolding run
      using write_after_gateway[of "midtrans_refund_payment e (order_id r) a" e p REFUNDED
          "w\<lparr>trace := trace w @ [SelectById p]\<rparr>" pid] before
      by auto
  qed
qed

lemma update_if_changed_stored:
  "stored_status (snd (update_if_changed e payment st w)) pid = stored_status w pid
   \<or> stored_status (snd (update_if_changed e payment st w)) pid = Some st"
  using update_payment_status_stored[of e "p_id payment" st w pid]
  by (cases "stored_status w pid") (auto simp: update_if_changed_def ret_def)

lemma process_webhook_stored:
  "stored_status (snd (process_webhook e key d v w)) pid = stored_status w pid
   \<or> (\<exists>n. parse_notification e d = Inr n \<and>
           stored_status (snd (process_webhook e key d v w)) pid
             = Some (map_status_to_payment_status (wh_transaction_status n) (wh_fraud_status n)))"
proof (cases "parse_notification e d")
  case (Inl x)
  then show ?thesis by (simp add: process_webhook_run)
next
  case (Inr n)
  show ?thesis
  proof (cases "sort_key (\<lambda>r. - created_at r) (filter (\<lambda>r. order_id r = wh_order_id n) (db w))")
    case Nil
    with Inr show ?thesis by (simp add: process_webhook_run)
  next
    case (Cons r rs)
    show ?thesis
      using update_if_changed_stored[of e "payment_record_to_response e r"
          "map_status_to_payment_status (wh_transaction_status n) (wh_fraud_status n)"
          "w\<lparr>trace := trace w @ [SelectByOrder (wh_order_id n)]\<rparr>" pid]
      by (auto simp: process_webhook_run Inr Cons split: prod.splits sum.splits)
  qed
qed

lemma handle_notification_stored:
  "stored_status (snd (handle_notification e d w)) pid = stored_status w pid
   \<or> (\<exists>n. normalize_notification e d = Inr n \<and>
           stored_status (snd (handle_notification e d w)) pid = Some (nt_status n))"
proof (cases "normalize_notification e d")
  case (Inl x)
  then show ?thesis by (simp add: handle_notification_run)
next
  case (Inr n)
  show ?thesis
  proof (cases "sort_key (\<lambda>r. - created_at r) (filter (\<lambda>r. order_id r = nt_order_id n) (db w))")
    case Nil
    with Inr show ?thesis by (simp add: handle_notification_run)
  next
    case (Cons r rs)
    show ?thesis
      using update_if_changed_stored[of e "payment_record_to_response e r" "nt_status n"
          "w\<lparr>trace := trace w @ [SelectByOrder (nt_order_id n)]\<rparr>" pid]
      by (auto simp: handle_notification_run Inr Cons split: prod.splits sum.splits)
  qed
qed

lemma sample_status: "stored_status (sample_world st) ''payment-ORD-1'' = Some st"
  by (simp add: stored_status_def sample_world_def sample_row_def)

lemma sample_get_refund:
  "stored_status
     (step (answering_env (status_response (JStr ''refund'') JNull)) (Get ''payment-ORD-1'')
        (sample_world PENDING)) ''payment-ORD-1'' = Some REFUNDED"
  by (simp add: get_payment_stored sample_stored sample_row_def answering_env_def
      status_response_def status_of_response_def map_status_result_def dict_get_def
      dict_get_default_def status_mapping_def)

lemma sample_refund:
  "stored_status
     (step (answering_env (Response 200 (Some (JObj [(''gross_amount'', JNum 100000)]))))
        (Refund ''payment-ORD-1'' None) (sample_world SUCCESS)) ''payment-ORD-1'' = Some REFUNDED"
  by (simp add: refund_payment_def midtrans_refund_payment_def except_request_exception_def
      io_defs storage_get_payment_run update_payment_status_run sample_stored
      checked_json_def gross_amount_of_def to_float_def build_changed_def validate_str_def
      dict_get_default_def answering_env_def offline_env_def sample_row_def sample_world_def
      stored_status_def stored_def)

text \<open>
  Claim C3, as the code has it. The claim that a stored status becomes REFUNDED
  only from SUCCESS fails: the updates driven by the gateway write whatever
  status the gateway reports, with no check of the stored one. What holds of a
  single step on any table: when a payment that was not REFUNDED is REFUNDED
  afterwards, the step is either a refund of that payment, whose stored status
  was SUCCESS, or a read with refresh of that payment in status PENDING or
  PROCESSING, a forced check of that payment, or a notification, in which the
  status reported by the gateway maps to REFUNDED. A cancel never leaves a
  payment REFUNDED.
\<close>

theorem refunded_after_success_or_gateway_report:
  assumes "stored w pid = Some r"
    and "status r \<noteq> REFUNDED"
    and "stored_status (step e op w) pid = Some REFUNDED"
  shows "(case op of
            Refund p a \<Rightarrow> p = pid \<and> status r = SUCCESS
          | Cancel p \<Rightarrow> False
          | Get p \<Rightarrow>
              p = pid \<and> status r \<in> {PENDING, PROCESSING} \<and>
              status_of_response (gateway e (GetStatus (order_id r))) = REFUNDED
          | ForceCheck p \<Rightarrow>
              p = pid \<and> status_of_response (gateway e (GetStatus (order_id r))) = REFUNDED
          | Webhook key d v \<Rightarrow>
              (\<exists>n. parse_notification e d = Inr n \<and>
                   map_status_to_payment_status (wh_transaction_status n) (wh_fraud_status n)
                     = REFUNDED)
          | Notify d \<Rightarrow>
              (\<exists>n. normalize_notification e d = Inr n \<and> nt_status n = REFUNDED))"
proof -
  have before: "stored_status w pid = Some (status r)"
    using assms(1) by (simp add: stored_status_stored)
  show ?thesis
  proof (cases op)
    case (Get p)
    with assms before show ?thesis
      by (auto simp: get_payment_stored split: option.splits if_splits)
  next
    case (ForceCheck p)
    with assms before show ?thesis
      by (auto simp: get_payment_status_stored split: option.splits if_splits)
  next
    case (Notify d)
    with assms before handle_notification_stored[of e d w pid] show ?thesis
      by auto
  next
    case (Webhook key d v)
    with assms before process_webhook_stored[of e key d v w pid] show ?thesis
      by auto
  next
    case (Cancel p)
    with assms before cancel_payment_stored[of e p w pid] show ?thesis
      by auto
  next
    case (Refund p a)
    with assms before refund_payment_stored[of e p a w pid] show ?thesis
      by auto
  qed
qed


theorem refunded_after_success_or_gateway_report_witness:
  "stored (sample_world SUCCESS) ''payment-ORD-1'' = Some (sample_row SUCCESS) \<and>
   status (sample_row SUCCESS) \<noteq> REFUNDED \<and>
   stored_status
     (step (answering_env (Response 200 (Some (JObj [(''gross_amount'', JNum 100000)]))))
        (Refund ''payment-ORD-1'' None) (sample_world SUCCESS)) ''payment-ORD-1'' = Some REFUNDED \<and>
   status (sample_row SUCCESS) = SUCCESS \<and>
   stored (sample_world PENDING) ''payment-ORD-1'' = Some (sample_row PENDING) \<and>
   status (sample_row PENDING) \<noteq> REFUNDED \<and>
   stored_status
     (step (answering_env (status_response (JStr ''refund'') JNull)) (Get ''payment-ORD-1'')
        (sample_world PENDING)) ''payment-ORD-1'' = Some REFUNDED \<and>
   status_of_response
     (gateway (answering_env (status_response (JStr ''refund'') JNull))
        (GetStatus (order_id (sample_row PENDING)))) = REFUNDED"
proof -
  have a1: "stored (sample_world SUCCESS) ''payment-ORD-1'' = Some (sample_row SUCCESS)"
    and b1: "stored (sample_world PENDING) ''payment-ORD-1'' = Some (sample_row PENDING)"
    by (rule sample_stored)+
  have a2: "status (sample_row SUCCESS) \<noteq> REFUNDED"
    and b2: "status (sample_row PENDING) \<noteq> REFUNDED"
    by (simp_all add: sample_row_def)
  note a3 = sample_refund and b3 = sample_get_refund
  show ?thesis
    using a1 a2 a3 b1 b2 b3
      refunded_after_success_or_gateway_report [OF a1 a2 a3]
      refunded_after_success_or_gateway_report [OF b1 b2 b3]
    by simp
qed

text \<open>
  Counterexample to claim C3 as stated. The stored payment is PENDING and the
  gateway answers the status query with
  \<^verbatim>\<open>transaction_status = "refund"\<close>: after the read with refresh the stored
  status is REFUNDED, and the status before that step was PENDING, not SUCCESS.
\<close>

theorem refunded_from_pending_counterexample:
  "stored_status (sample_world PENDING) ''payment-ORD-1'' = Some PENDING \<and>
   stored_status
     (step (answering_env (status_response (JStr ''refund'') JNull)) (Get ''payment-ORD-1'')
        (sample_world PENDING)) ''payment-ORD-1'' = Some REFUNDED"
  by (simp add: get_payment_stored sample_stored sample_status sample_row_def answering_env_def
      status_response_def status_of_response_def map_status_result_def dict_get_def
      dict_get_default_def status_mapping_def)

section \<open>Two creates for one order\<close>

lemma decimal_samples:
  "decimal_15_2 100000 = Some 100000" "decimal_15_2 250000 = Some 250000"
  "decimal_15_2 (100555 / 1000) = Some (10056 / 100)"
  "decimal_15_2 (10 ^ 13) = None"
  "decimal_15_2 (- (5 / 1000)) = Some (- (1 / 100))"
  "decimal_15_2 (250000555 / 1000) = Some (25000056 / 100)"
  by code_simp+












lemma sample_build:
  "gateway e PostSnap = accepted \<Longrightarrow>
   build_created e (sample_request a) (gateway e PostSnap) = Inr (sample_created e a)"
  by (simp add: build_created_def accepted_def sample_request_def sample_created_def
      validate_opt_str_def validate_str_def dict_get_def dict_get_default_def Let_def)

lemma sample_adapter:
  assumes "gateway e PostSnap = accepted" and "0 < a"
  shows "midtrans_create_payment e (sample_request a) w
           = (Inr (sample_created e a), w\<lparr>trace := trace w @ [GatewayCall PostSnap]\<rparr>)"
  using sample_build[OF assms(1), of a] assms
  by (simp add: midtrans_create_payment_def io_defs) (simp add: sample_request_def)

lemma sample_new:
  "decimal_15_2 a = Some b \<Longrightarrow> new_payment e (sample_created e a) = Some (sample_created_row e b)"
  by (simp add: new_payment_def sample_created_def sample_created_row_def varchar_def
      store_metadata_def varchar_json_def text_json_def dict_get_def dict_get_default_def)

lemma sample_refused:
  "decimal_15_2 a = None \<Longrightarrow> new_payment e (sample_created e a) = None"
  by (simp add: new_payment_def sample_created_def varchar_def)


lemma sample_envs:
  "gateway first_env PostSnap = accepted" "gateway second_env PostSnap = accepted"
  "now first_env = 100" "utcnow first_env = 200" "now second_env = 300" "utcnow second_env = 400"
  by (simp_all add: first_env_def second_env_def answering_env_def offline_env_def)

lemma sample_row_fields:
  "payment_id (sample_created_row e a) = ''payment-ORD-1''"
  "amount (sample_created_row e a) = a"
  "created_at (sample_created_row e a) = now e"
  "updated_at (sample_created_row e a) = now e"
  "p_id (sample_created e a) = ''payment-ORD-1''"
  by (simp_all add: sample_created_row_def sample_created_def)

lemma sample_create_on_empty:
  assumes "gateway e PostSnap = accepted" and "0 < a" and "decimal_15_2 a = Some b"
  shows "create_payment e (sample_request a) empty_world
     = (Inr (sample_created e a),
        \<lparr>db = [sample_created_row e b],
         trace = [GatewayCall PostSnap, SelectById ''payment-ORD-1'', Commit ''payment-ORD-1'']\<rparr>)"
  using assms
  by (simp add: create_payment_def try_except_def bind_def ret_def emit_def
      sample_adapter save_payment_def sample_new sample_row_fields empty_world_def)










text \<open>
  An amount with more than two decimals is stored rounded, and a create whose
  amount does not fit the column fails at the save, after the gateway has
  accepted the transaction.
\<close>

lemma sample_rounded_create:
  "create_payment first_env (sample_request (100555 / 1000)) empty_world
     = (Inr (sample_created first_env (100555 / 1000)),
        \<lparr>db = [sample_created_row first_env (10056 / 100)],
         trace = [GatewayCall PostSnap, SelectById ''payment-ORD-1'', Commit ''payment-ORD-1'']\<rparr>)"
  by (rule sample_create_on_empty[OF sample_envs(1) _ decimal_samples(3)]) simp

lemma sample_overflowing_create:
  "create_payment first_env (sample_request (10 ^ 13)) empty_world
     = (Inl (ValueError (Fmt ''Failed to create payment: {}'' [AExn save_failed])),
        \<lparr>db = [], trace = [GatewayCall PostSnap, SelectById ''payment-ORD-1'']\<rparr>)"
proof -
  have "new_payment first_env (sample_created first_env (10 ^ 13)) = None"
    by (rule sample_refused) (rule decimal_samples)
  then show ?thesis
    by (simp add: create_payment_def try_except_def bind_def ret_def emit_def raise_def
        sample_adapter sample_envs save_payment_def sample_row_fields empty_world_def)
qed

end
